theory Spec2Isabelle
  imports Complex_Main "HOL-Library.Log_Nat"
begin


section \<open>JavaScript values and numbers\<close>

text \<open>
  The server code is JavaScript. A JavaScript number is an IEEE double: the model
  holds its value as a rational (\<open>JNum\<close>), or it is \<open>JNaN\<close>. \<open>JUndefined\<close> is the
  value of a property that is found nowhere, \<open>JObject\<close> stands for any function or
  object value (all of them are truthy and convert to \<open>NaN\<close> in arithmetic).
\<close>

datatype jsval = JUndefined | JNum rat | JNaN | JObject

fun truthy :: "jsval \<Rightarrow> bool" where
  "truthy JUndefined = False"
| "truthy (JNum n) = (n \<noteq> 0)"
| "truthy JNaN = False"
| "truthy JObject = True"

text \<open>\<^verbatim>\<open>a || b\<close>\<close>

definition js_or :: "jsval \<Rightarrow> jsval \<Rightarrow> jsval" where
  "js_or a b = (if truthy a then a else b)"

subsection \<open>Rounding to a double\<close>

text \<open>
  \<open>log2_floor x\<close>, for a positive \<open>x\<close>, is the exponent \<open>e\<close> with
  \<open>2^e \<le> x < 2^(e+1)\<close>: the bit lengths of numerator and denominator give it up to
  one, and a comparison settles it.
\<close>

definition log2_floor :: "rat \<Rightarrow> int" where
  "log2_floor x =
     (let k = bitlen (fst (quotient_of x)) - bitlen (snd (quotient_of x))
      in if 2 powi k \<le> x then k else k - 1)"

text \<open>The nearest integer; a tie goes to the even one.\<close>

definition round_half_even :: "rat \<Rightarrow> int" where
  "round_half_even x =
     (let f = \<lfloor>x\<rfloor>; r = x - of_int f
      in if r < 1 / 2 then f else if 1 / 2 < r then f + 1 else if even f then f else f + 1)"

text \<open>
  \<open>fl x\<close> is the double nearest to \<open>x\<close> (round to nearest, ties to even): \<open>x\<close> is
  rounded to a multiple of \<open>2^(e-52)\<close>, which leaves 53 significant bits. Each
  operation of the mood score yields \<open>fl\<close> of its exact result. The range of the
  exponent is not modelled (no overflow, no subnormal numbers); the numbers of the
  mood score lie far inside it.
\<close>

definition fl :: "rat \<Rightarrow> rat" where
  "fl x =
     (if x = 0 then 0
      else (let u = 2 powi (log2_floor \<bar>x\<bar> - 52) in of_int (round_half_even (x / u)) * u))"

subsection \<open>Operators and property lookup\<close>

text \<open>\<^verbatim>\<open>a * b\<close>: \<open>undefined\<close>, functions and plain objects convert to \<open>NaN\<close>.\<close>

fun js_mul :: "jsval \<Rightarrow> jsval \<Rightarrow> jsval" where
  "js_mul (JNum a) (JNum b) = JNum (fl (a * b))"
| "js_mul _ _ = JNaN"

text \<open>
  The property names every object literal inherits from \<open>Object.prototype\<close>
  (ECMAScript, with the legacy accessors of Annex B that Node.js provides).
\<close>

definition Object_prototype_keys :: "string list" where
  "Object_prototype_keys =
     [''constructor'', ''hasOwnProperty'', ''isPrototypeOf'', ''propertyIsEnumerable'',
      ''toLocaleString'', ''toString'', ''valueOf'', ''__proto__'',
      ''__defineGetter__'', ''__defineSetter__'', ''__lookupGetter__'', ''__lookupSetter__'']"

text \<open>
  \<^verbatim>\<open>obj[key]\<close> on an object literal whose own properties are numbers: the own
  properties are searched first, then the prototype chain.
\<close>

definition get_property :: "(string \<times> rat) list \<Rightarrow> string \<Rightarrow> jsval" where
  "get_property obj k =
     (case map_of obj k of
        Some n \<Rightarrow> JNum n
      | None \<Rightarrow> if k \<in> set Object_prototype_keys then JObject else JUndefined)"

text \<open>\<^verbatim>\<open>Math.round(x)\<close>: the nearest integer, a half rounded towards plus infinity.\<close>

definition Math_round :: "rat \<Rightarrow> rat" where
  "Math_round x = of_int \<lfloor>x + 1 / 2\<rfloor>"

section \<open>Mood logs (models/MoodLog.js)\<close>

text \<open>
  A stored document of the \<open>moodlogs\<close> collection. Times are milliseconds since the
  epoch. The fields \<open>location\<close>, \<open>deviceInfo\<close> and \<open>metadata\<close> play no part in what
  follows and are left out. \<open>moodScore\<close> is a virtual: it is no field of the stored
  document.
\<close>

record MoodLog =
  m_id :: string
  m_userId :: string
  mood :: string
  intensity :: rat
  m_context :: "string option"
  transactionId :: "string option"
  m_notes :: "string option"
  triggers :: "string list"
  m_createdAt :: int
  m_updatedAt :: int

definition mood_enum :: "string list" where
  "mood_enum = [''happy'', ''neutral'', ''stressed'', ''anxious'', ''excited'', ''sad'',
                ''angry'', ''calm'', ''worried'', ''content'']"

definition context_enum :: "string list" where
  "context_enum = [''before_transaction'', ''after_transaction'', ''general'',
                   ''budget_review'', ''goal_check'']"

definition triggers_enum :: "string list" where
  "triggers_enum = [''spending'', ''saving'', ''budget_alert'', ''goal_progress'',
                    ''insight'', ''reminder'']"

definition moodScores :: "(string \<times> rat) list" where
  "moodScores =
     [(''happy'', 9), (''excited'', 8), (''content'', 7), (''calm'', 6), (''neutral'', 5),
      (''worried'', 4), (''sad'', 3), (''anxious'', 2), (''stressed'', 2), (''angry'', 1)]"

text \<open>
  The getter of the virtual,
  \<^verbatim>\<open>(moodScores[this.mood] || 5) * (this.intensity / 10)\<close>: the quotient is rounded
  to a double, and so is the product.
\<close>

definition moodScore :: "MoodLog \<Rightarrow> jsval" where
  "moodScore d =
     js_mul (js_or (get_property moodScores (mood d)) (JNum 5)) (JNum (fl (intensity d / 10)))"

text \<open>The base scores as the specification lists them.\<close>

definition spec_baseScore :: "string \<Rightarrow> rat" where
  "spec_baseScore m =
     (if m = ''happy'' then 9 else if m = ''excited'' then 8 else if m = ''content'' then 7
      else if m = ''calm'' then 6 else if m = ''neutral'' then 5 else if m = ''worried'' then 4
      else if m = ''sad'' then 3 else if m = ''anxious'' then 2 else if m = ''stressed'' then 2
      else if m = ''angry'' then 1 else 0)"

text \<open>
  The derived score as the specification words it, \<open>baseScore(mood) * (intensity / 10)\<close>,
  a float: in the arithmetic of doubles.
\<close>

definition spec_moodScore :: "string \<Rightarrow> rat \<Rightarrow> rat" where
  "spec_moodScore m i = fl (spec_baseScore m * fl (i / 10))"

text \<open>
  What the validators of the schema (\<^verbatim>\<open>enum\<close> on \<open>mood\<close>, \<^verbatim>\<open>min: 1, max: 10\<close> on
  \<open>intensity\<close>) establish of a document.
\<close>

definition valid_MoodLog :: "MoodLog \<Rightarrow> bool" where
  "valid_MoodLog d = (mood d \<in> set mood_enum \<and> 1 \<le> intensity d \<and> intensity d \<le> 10)"


section \<open>Results of a request\<close>

text \<open>
  How a route answers when it does not succeed: status 400 (the request validators
  rejected the payload), 404 (no document with that id for that user) or 500 (an
  exception reached the route's \<^verbatim>\<open>catch\<close>: a schema validation error or a
  database error).
\<close>

datatype error = Bad_Request | Not_Found | Server_Error

text \<open>
  \<^verbatim>\<open>Model.findOneAndUpdate(filter, update, { new: true })\<close>: the first document that
  matches is replaced by its update, and the updated document is returned; \<open>None\<close> is
  JavaScript's \<open>null\<close>, no document matched.
\<close>

fun findOneAndUpdate :: "('a \<Rightarrow> bool) \<Rightarrow> ('a \<Rightarrow> 'a) \<Rightarrow> 'a list \<Rightarrow> ('a list \<times> 'a) option" where
  "findOneAndUpdate p f [] = None"
| "findOneAndUpdate p f (d # ds) =
     (if p d then Some (f d # ds, f d)
      else (case findOneAndUpdate p f ds of
              None \<Rightarrow> None
            | Some (ds', r) \<Rightarrow> Some (d # ds', r)))"

text \<open>\<^verbatim>\<open>Model.findOne(filter)\<close>\<close>

definition findOne :: "('a \<Rightarrow> bool) \<Rightarrow> 'a list \<Rightarrow> 'a option" where
  "findOne p ds = List.find p ds"

section \<open>PUT /api/moods/:id\<close>

text \<open>
  The request body, \<^verbatim>\<open>req.body\<close>: each key of the schema that a payload can set is
  present (\<open>Some\<close>) or absent. The route hands the whole body to \<^verbatim>\<open>$set\<close>, so the keys
  \<open>userId\<close> and \<open>transactionId\<close> count although no request validator names them.
  Keys outside the schema are dropped by Mongoose and are not modelled.
\<close>

record update_body =
  b_userId :: "string option"
  b_mood :: "string option"
  b_intensity :: "rat option"
  b_context :: "string option"
  b_transactionId :: "string option"
  b_notes :: "string option"
  b_triggers :: "string list option"

definition is_space :: "char \<Rightarrow> bool" where
  "is_space c = (c \<in> set [CHR '' '', CHR 0x09, CHR 0x0A, CHR 0x0B, CHR 0x0C, CHR 0x0D])"

definition trim :: "string \<Rightarrow> string" where
  "trim s = rev (dropWhile is_space (rev (dropWhile is_space s)))"

definition isIn :: "string list \<Rightarrow> string option \<Rightarrow> bool" where
  "isIn vs v = (case v of None \<Rightarrow> True | Some s \<Rightarrow> s \<in> set vs)"

definition isInt :: "rat \<Rightarrow> rat \<Rightarrow> rat option \<Rightarrow> bool" where
  "isInt lo hi v =
     (case v of None \<Rightarrow> True | Some i \<Rightarrow> of_int \<lfloor>i\<rfloor> = i \<and> lo \<le> i \<and> i \<le> hi)"

definition isLength_max :: "nat \<Rightarrow> string option \<Rightarrow> bool" where
  "isLength_max n v = (case v of None \<Rightarrow> True | Some s \<Rightarrow> length s \<le> n)"

text \<open>The sanitizer of the validation chain: \<^verbatim>\<open>body('notes').optional().trim()\<close>.\<close>

definition sanitize :: "update_body \<Rightarrow> update_body" where
  "sanitize b = b\<lparr>b_notes := map_option trim (b_notes b)\<rparr>"

text \<open>The five request validators of the route (every one \<^verbatim>\<open>optional()\<close>).\<close>

definition validationResult :: "update_body \<Rightarrow> bool" where
  "validationResult b =
     (isIn mood_enum (b_mood b) \<and> isInt 1 10 (b_intensity b) \<and> isIn context_enum (b_context b)
      \<and> isLength_max 500 (b_notes (sanitize b)))"

text \<open>
  \<^verbatim>\<open>runValidators: true\<close>: the schema's validators for the paths of \<^verbatim>\<open>$set\<close> that the
  request validators have not already checked: \<open>userId\<close> is required (a non-empty
  string) and every element of \<open>triggers\<close> is in its enumeration.
\<close>

definition runValidators :: "update_body \<Rightarrow> bool" where
  "runValidators b =
     ((case b_userId b of None \<Rightarrow> True | Some u \<Rightarrow> u \<noteq> [])
      \<and> (case b_triggers b of None \<Rightarrow> True | Some ts \<Rightarrow> list_all (\<lambda>t. t \<in> set triggers_enum) ts))"

text \<open>
  \<^verbatim>\<open>{ $set: updateData }\<close> on one document; the schema's \<^verbatim>\<open>timestamps: true\<close> makes
  every update stamp \<open>updatedAt\<close>.
\<close>

definition set_updateData :: "int \<Rightarrow> update_body \<Rightarrow> MoodLog \<Rightarrow> MoodLog" where
  "set_updateData now b d =
     d\<lparr>m_userId := (case b_userId b of None \<Rightarrow> m_userId d | Some u \<Rightarrow> u),
       mood := (case b_mood b of None \<Rightarrow> mood d | Some m \<Rightarrow> m),
       intensity := (case b_intensity b of None \<Rightarrow> intensity d | Some i \<Rightarrow> i),
       m_context := (case b_context b of None \<Rightarrow> m_context d | Some c \<Rightarrow> Some c),
       transactionId := (case b_transactionId b of None \<Rightarrow> transactionId d | Some t \<Rightarrow> Some t),
       m_notes := (case b_notes b of None \<Rightarrow> m_notes d | Some n \<Rightarrow> Some n),
       triggers := (case b_triggers b of None \<Rightarrow> triggers d | Some ts \<Rightarrow> ts),
       m_updatedAt := now\<rparr>"

text \<open>The \<open>moodLog\<close> object of the response.\<close>

record mood_response =
  r_id :: string
  r_mood :: string
  r_intensity :: rat
  r_context :: "string option"
  r_moodScore :: jsval
  r_updatedAt :: int

definition response_of :: "MoodLog \<Rightarrow> mood_response" where
  "response_of d =
     \<lparr>r_id = m_id d, r_mood = mood d, r_intensity = intensity d, r_context = m_context d,
      r_moodScore = moodScore d, r_updatedAt = m_updatedAt d\<rparr>"

text \<open>
  The route: \<open>now\<close> is the clock, \<open>uid\<close> is \<^verbatim>\<open>req.user.id.toString()\<close>, \<open>eid\<close> is
  \<^verbatim>\<open>req.params.id\<close>, \<open>body\<close> is \<^verbatim>\<open>req.body\<close> and the list is the collection.
  Ids are abstract strings, taken to be well-formed: an \<open>eid\<close> that is no ObjectId
  makes the cast of the query fail, the route answers 500, and that case is outside
  the model.
\<close>

definition put_mood ::
  "int \<Rightarrow> string \<Rightarrow> string \<Rightarrow> update_body \<Rightarrow> MoodLog list \<Rightarrow> error + (MoodLog list \<times> mood_response)" where
  "put_mood now uid eid body store =
     (if \<not> validationResult body then Inl Bad_Request
      else if \<not> runValidators (sanitize body) then Inl Server_Error
      else (case findOneAndUpdate (\<lambda>d. m_id d = eid \<and> m_userId d = uid)
                   (set_updateData now (sanitize body)) store of
              None \<Rightarrow> Inl Not_Found
            | Some (store', moodLog) \<Rightarrow> Inr (store', response_of moodLog)))"

section \<open>POST /api/moods\<close>

text \<open>
  The request body is read through the same record; the route builds the document
  field by field and takes \<open>userId\<close> from the authenticated user, so the key
  \<open>userId\<close> of a body is ignored.
\<close>

definition is_hex :: "char \<Rightarrow> bool" where
  "is_hex c = (c \<in> set ''0123456789abcdefABCDEF'')"

definition isMongoId :: "string option \<Rightarrow> bool" where
  "isMongoId v = (case v of None \<Rightarrow> True | Some s \<Rightarrow> length s = 24 \<and> list_all is_hex s)"

text \<open>
  The request validators of the route: \<open>mood\<close> and \<open>intensity\<close> are not optional
  here, the others are.
\<close>

definition post_validationResult :: "update_body \<Rightarrow> bool" where
  "post_validationResult b =
     ((case b_mood b of None \<Rightarrow> False | Some m \<Rightarrow> m \<in> set mood_enum)
      \<and> (case b_intensity b of None \<Rightarrow> False | Some i \<Rightarrow> of_int \<lfloor>i\<rfloor> = i \<and> 1 \<le> i \<and> i \<le> 10)
      \<and> isIn context_enum (b_context b) \<and> isMongoId (b_transactionId b)
      \<and> isLength_max 500 (b_notes (sanitize b)))"

text \<open>\<^verbatim>\<open>new MoodLog({ userId: req.user.id.toString(), mood, intensity, context, ... })\<close>\<close>

definition new_MoodLog :: "string \<Rightarrow> int \<Rightarrow> string \<Rightarrow> update_body \<Rightarrow> MoodLog" where
  "new_MoodLog oid now uid b =
     \<lparr>m_id = oid, m_userId = uid,
      mood = (case b_mood b of None \<Rightarrow> [] | Some m \<Rightarrow> m),
      intensity = (case b_intensity b of None \<Rightarrow> 0 | Some i \<Rightarrow> i),
      m_context = Some (case b_context b of None \<Rightarrow> ''general'' | Some c \<Rightarrow> c),
      transactionId = b_transactionId b,
      m_notes = b_notes b,
      triggers = (case b_triggers b of None \<Rightarrow> [] | Some ts \<Rightarrow> ts),
      m_createdAt = now, m_updatedAt = now\<rparr>"

text \<open>The \<open>moodLog\<close> object of the response of this route.\<close>

record created_response =
  c_id :: string
  c_mood :: string
  c_intensity :: rat
  c_context :: "string option"
  c_moodScore :: jsval
  c_createdAt :: int

text \<open>
  The route: \<open>oid\<close> is the fresh \<open>_id\<close>. \<^verbatim>\<open>moodLog.save()\<close> runs the validators of
  the schema; of these only the enumeration of \<open>triggers\<close> can still fail, and then
  the route answers 500.
\<close>

definition post_mood ::
  "string \<Rightarrow> int \<Rightarrow> string \<Rightarrow> update_body \<Rightarrow> MoodLog list \<Rightarrow> error + (MoodLog list \<times> created_response)" where
  "post_mood oid now uid body store =
     (if \<not> post_validationResult body then Inl Bad_Request
      else if \<not> list_all (\<lambda>t. t \<in> set triggers_enum) (triggers (new_MoodLog oid now uid (sanitize body)))
      then Inl Server_Error
      else (let moodLog = new_MoodLog oid now uid (sanitize body)
            in Inr (store @ [moodLog],
                    \<lparr>c_id = m_id moodLog, c_mood = mood moodLog, c_intensity = intensity moodLog,
                     c_context = m_context moodLog, c_moodScore = moodScore moodLog,
                     c_createdAt = m_createdAt moodLog\<rparr>)))"

section \<open>Insights (models/Insight.js)\<close>

text \<open>
  A stored document of the \<open>insights\<close> collection. \<open>expiresAt\<close> is not a required
  path, so a stored insight may have none. The payload paths \<open>data\<close>, \<open>tags\<close> and
  \<open>metadata\<close> carry no validator and take no part in any query; they are left out. Of
  \<open>visualizations\<close> only the \<open>type\<close> of each entry is kept (it has a validator).
\<close>

record Insight =
  i_id :: string
  i_userId :: string
  i_type :: string
  title :: string
  description :: string
  confidence :: rat
  priority :: string
  category :: string
  visualizations :: "string option list"
  source :: string
  isRead :: bool
  isActionable :: bool
  actionTaken :: bool
  actionTakenAt :: "int option"
  expiresAt :: "int option"
  i_createdAt :: int
  i_updatedAt :: int

definition type_enum :: "string list" where
  "type_enum = [''spending_pattern'', ''mood_correlation'', ''budget_insight'', ''goal_progress'',
                ''behavioral_trigger'', ''recommendation'', ''forecast'']"

definition priority_enum :: "string list" where
  "priority_enum = [''low'', ''medium'', ''high'', ''urgent'']"

definition category_enum :: "string list" where
  "category_enum = [''financial'', ''emotional'', ''behavioral'', ''predictive'', ''actionable'']"

definition visualization_enum :: "string list" where
  "visualization_enum = [''chart'', ''graph'', ''metric'', ''trend'']"

definition source_enum :: "string list" where
  "source_enum = [''ml_analysis'', ''rule_based'', ''user_behavior'', ''external_data'']"

subsection \<open>Schema validation and saving a new insight\<close>

text \<open>
  What a producer hands to \<^verbatim>\<open>new Insight(obj)\<close>: every path present or absent. No
  route of the server creates insights; they are created through the model, whose
  \<^verbatim>\<open>save()\<close> runs the validators of the schema.
\<close>

record insight_input =
  n_userId :: "string option"
  n_type :: "string option"
  n_title :: "string option"
  n_description :: "string option"
  n_confidence :: "rat option"
  n_priority :: "string option"
  n_category :: "string option"
  n_visualizations :: "string option list"
  n_source :: "string option"
  n_isRead :: "bool option"
  n_isActionable :: "bool option"
  n_actionTaken :: "bool option"
  n_actionTakenAt :: "int option"
  n_expiresAt :: "int option"

text \<open>\<^verbatim>\<open>default: ...\<close> of a schema path.\<close>

definition with_default :: "'a \<Rightarrow> 'a option \<Rightarrow> 'a" where
  "with_default d v = (case v of None \<Rightarrow> d | Some x \<Rightarrow> x)"

text \<open>\<^verbatim>\<open>required: true\<close>: a string path must hold a non-empty string.\<close>

definition required_string :: "string option \<Rightarrow> bool" where
  "required_string v = (case v of None \<Rightarrow> False | Some s \<Rightarrow> s \<noteq> [])"

definition required_number :: "rat option \<Rightarrow> bool" where
  "required_number v = (case v of None \<Rightarrow> False | Some _ \<Rightarrow> True)"

text \<open>\<^verbatim>\<open>enum\<close>, \<^verbatim>\<open>maxlength\<close>, \<^verbatim>\<open>min\<close> and \<^verbatim>\<open>max\<close> accept an absent value.\<close>

definition enum_ok :: "string list \<Rightarrow> string option \<Rightarrow> bool" where
  "enum_ok vs v = (case v of None \<Rightarrow> True | Some s \<Rightarrow> s \<in> set vs)"

definition maxlength_ok :: "nat \<Rightarrow> string option \<Rightarrow> bool" where
  "maxlength_ok n v = (case v of None \<Rightarrow> True | Some s \<Rightarrow> length s \<le> n)"

definition min_ok :: "rat \<Rightarrow> rat option \<Rightarrow> bool" where
  "min_ok lo v = (case v of None \<Rightarrow> True | Some x \<Rightarrow> lo \<le> x)"

definition max_ok :: "rat \<Rightarrow> rat option \<Rightarrow> bool" where
  "max_ok hi v = (case v of None \<Rightarrow> True | Some x \<Rightarrow> x \<le> hi)"

definition check :: "string \<Rightarrow> bool \<Rightarrow> string list" where
  "check path ok = (if ok then [] else [path])"

text \<open>
  The validators of \<open>insightSchema\<close>, path by path; the result lists the paths
  that fail. The list stands for the set of failing paths: the order in which the
  library reports them, and the index inside the path of a visualization
  (\<open>visualizations.1.type\<close>), are not modelled. \<open>expiresAt\<close> has an index and no
  validator.
\<close>

definition validate :: "insight_input \<Rightarrow> string list" where
  "validate x =
     check ''userId'' (required_string (n_userId x))
     @ check ''type'' (required_string (n_type x) \<and> enum_ok type_enum (n_type x))
     @ check ''title'' (required_string (n_title x) \<and> maxlength_ok 200 (n_title x))
     @ check ''description'' (required_string (n_description x) \<and> maxlength_ok 1000 (n_description x))
     @ check ''confidence'' (required_number (n_confidence x) \<and> min_ok 0 (n_confidence x)
                             \<and> max_ok 1 (n_confidence x))
     @ check ''priority'' (enum_ok priority_enum (Some (with_default ''medium'' (n_priority x))))
     @ check ''category'' (enum_ok category_enum (n_category x) \<and> required_string (n_category x))
     @ check ''visualizations.type'' (list_all (enum_ok visualization_enum) (n_visualizations x))
     @ check ''source'' (enum_ok source_enum (Some (with_default ''ml_analysis'' (n_source x))))"

datatype save_error = ValidationError "string list"

text \<open>The document that \<^verbatim>\<open>new Insight(obj)\<close> builds: defaults and timestamps filled in.\<close>

definition new_Insight :: "string \<Rightarrow> int \<Rightarrow> insight_input \<Rightarrow> Insight" where
  "new_Insight oid now x =
     \<lparr>i_id = oid,
      i_userId = with_default [] (n_userId x),
      i_type = with_default [] (n_type x),
      title = with_default [] (n_title x),
      description = with_default [] (n_description x),
      confidence = with_default 0 (n_confidence x),
      priority = with_default ''medium'' (n_priority x),
      category = with_default [] (n_category x),
      visualizations = n_visualizations x,
      source = with_default ''ml_analysis'' (n_source x),
      isRead = with_default False (n_isRead x),
      isActionable = with_default False (n_isActionable x),
      actionTaken = with_default False (n_actionTaken x),
      actionTakenAt = n_actionTakenAt x,
      expiresAt = n_expiresAt x,
      i_createdAt = now,
      i_updatedAt = now\<rparr>"

text \<open>
  Ingestion, \<^verbatim>\<open>new Insight(obj).save()\<close>: \<open>oid\<close> is the fresh \<open>_id\<close>, \<open>now\<close> the
  clock. The document is stored only when no validator fails.
\<close>

definition ingest :: "string \<Rightarrow> int \<Rightarrow> insight_input \<Rightarrow> Insight list \<Rightarrow> save_error + (Insight list \<times> Insight)" where
  "ingest oid now x store =
     (if validate x \<noteq> [] then Inl (ValidationError (validate x))
      else Inr (store @ [new_Insight oid now x], new_Insight oid now x))"

text \<open>
  The TTL index \<^verbatim>\<open>expiresAt: { index: { expireAfterSeconds: 0 } }\<close>: a background task
  of the database removes, at some later time, the documents whose \<open>expiresAt\<close> has
  passed. Until it has run they stay in the collection.
\<close>

definition expired :: "int \<Rightarrow> Insight \<Rightarrow> bool" where
  "expired now d = (case expiresAt d of None \<Rightarrow> False | Some e \<Rightarrow> e \<le> now)"

definition ttl_purge :: "int \<Rightarrow> Insight list \<Rightarrow> Insight list" where
  "ttl_purge now store = filter (\<lambda>d. \<not> expired now d) store"

text \<open>The query condition \<^verbatim>\<open>expiresAt: { $gt: new Date() }\<close>; it matches dates only.\<close>

definition expiresAt_gt :: "int \<Rightarrow> Insight \<Rightarrow> bool" where
  "expiresAt_gt now d = (case expiresAt d of None \<Rightarrow> False | Some e \<Rightarrow> now < e)"

subsection \<open>Sorting as the database does\<close>

text \<open>
  The value of a document's field as the database compares it. Strings compare by
  their bytes (no collation is configured), so \<open>priority\<close>, a string, sorts
  alphabetically.
\<close>

datatype skey = KNull | KNum rat | KStr string | KBool bool | KDate int

fun str_less :: "string \<Rightarrow> string \<Rightarrow> bool" where
  "str_less [] [] = False"
| "str_less [] (y # ys) = True"
| "str_less (x # xs) [] = False"
| "str_less (x # xs) (y # ys) =
     (if x = y then str_less xs ys else (of_char x :: nat) < of_char y)"

text \<open>The order of the BSON types present: null, numbers, strings, booleans, dates.\<close>

fun type_rank :: "skey \<Rightarrow> nat" where
  "type_rank KNull = 0"
| "type_rank (KNum _) = 1"
| "type_rank (KStr _) = 2"
| "type_rank (KBool _) = 3"
| "type_rank (KDate _) = 4"

fun key_less :: "skey \<Rightarrow> skey \<Rightarrow> bool" where
  "key_less (KNum a) (KNum b) = (a < b)"
| "key_less (KStr a) (KStr b) = str_less a b"
| "key_less (KBool a) (KBool b) = (\<not> a \<and> b)"
| "key_less (KDate a) (KDate b) = (a < b)"
| "key_less a b = (type_rank a < type_rank b)"

definition date_key :: "int option \<Rightarrow> skey" where
  "date_key v = (case v of None \<Rightarrow> KNull | Some t \<Rightarrow> KDate t)"

text \<open>The field of an insight that a sort specification names; \<open>KNull\<close> for any other name.\<close>

definition field_key :: "string \<Rightarrow> Insight \<Rightarrow> skey" where
  "field_key f d =
     (if f = ''_id'' then KStr (i_id d)
      else if f = ''userId'' then KStr (i_userId d)
      else if f = ''type'' then KStr (i_type d)
      else if f = ''title'' then KStr (title d)
      else if f = ''description'' then KStr (description d)
      else if f = ''confidence'' then KNum (confidence d)
      else if f = ''priority'' then KStr (priority d)
      else if f = ''category'' then KStr (category d)
      else if f = ''source'' then KStr (source d)
      else if f = ''isRead'' then KBool (isRead d)
      else if f = ''isActionable'' then KBool (isActionable d)
      else if f = ''actionTaken'' then KBool (actionTaken d)
      else if f = ''actionTakenAt'' then date_key (actionTakenAt d)
      else if f = ''expiresAt'' then date_key (expiresAt d)
      else if f = ''createdAt'' then KDate (i_createdAt d)
      else if f = ''updatedAt'' then KDate (i_updatedAt d)
      else KNull)"

text \<open>
  \<open>sort_before spec a b\<close>: under the sort specification (field names with direction
  \<open>1\<close> or \<open>-1\<close>, the first field most significant) document \<open>a\<close> comes strictly
  before \<open>b\<close>.
\<close>

fun sort_before :: "(string \<times> int) list \<Rightarrow> Insight \<Rightarrow> Insight \<Rightarrow> bool" where
  "sort_before [] a b = False"
| "sort_before ((f, dir) # fs) a b =
     (if key_less (field_key f a) (field_key f b) then 0 < dir
      else if key_less (field_key f b) (field_key f a) then dir < 0
      else sort_before fs a b)"

fun insert_sorted :: "('a \<Rightarrow> 'a \<Rightarrow> bool) \<Rightarrow> 'a \<Rightarrow> 'a list \<Rightarrow> 'a list" where
  "insert_sorted prec x [] = [x]"
| "insert_sorted prec x (y # ys) =
     (if prec y x then y # insert_sorted prec x ys else x # y # ys)"

text \<open>
  \<^verbatim>\<open>.sort(spec)\<close>. The database leaves the order of documents that tie on every
  field open; the model keeps them in the order of the collection.
\<close>

definition sort_docs :: "('a \<Rightarrow> 'a \<Rightarrow> bool) \<Rightarrow> 'a list \<Rightarrow> 'a list" where
  "sort_docs prec ds = foldr (insert_sorted prec) ds []"

text \<open>\<^verbatim>\<open>.limit(n)\<close>: a limit of \<open>0\<close> is no limit.\<close>

definition limit_docs :: "nat \<Rightarrow> 'a list \<Rightarrow> 'a list" where
  "limit_docs n ds = (if n = 0 then ds else take n ds)"

subsection \<open>The static methods of the model\<close>

definition getInsightsByType :: "int \<Rightarrow> string \<Rightarrow> string \<Rightarrow> nat \<Rightarrow> Insight list \<Rightarrow> Insight list" where
  "getInsightsByType now uid ty n store =
     limit_docs n (sort_docs (sort_before [(''createdAt'', -1)])
       (filter (\<lambda>d. i_userId d = uid \<and> i_type d = ty \<and> expiresAt_gt now d) store))"

definition getActionableInsights :: "int \<Rightarrow> string \<Rightarrow> nat \<Rightarrow> Insight list \<Rightarrow> Insight list" where
  "getActionableInsights now uid n store =
     limit_docs n
       (sort_docs (sort_before [(''priority'', -1), (''confidence'', -1), (''createdAt'', -1)])
         (filter (\<lambda>d. i_userId d = uid \<and> isActionable d \<and> \<not> actionTaken d \<and> expiresAt_gt now d)
            store))"

text \<open>One output document of the \<^verbatim>\<open>$group\<close> stage of \<open>getInsightsSummary\<close>.\<close>

record summary_group =
  g_type :: string
  g_category :: string
  g_count :: nat
  g_avgConfidence :: rat
  g_highPriorityCount :: nat
  g_actionableCount :: nat

text \<open>\<^verbatim>\<open>$avg\<close> over a non-empty group of numbers.\<close>

definition avg :: "rat list \<Rightarrow> rat" where
  "avg xs = sum_list xs / of_nat (length xs)"

definition group_of :: "Insight list \<Rightarrow> string \<times> string \<Rightarrow> summary_group" where
  "group_of ds k =
     (let g = filter (\<lambda>d. (i_type d, category d) = k) ds
      in \<lparr>g_type = fst k, g_category = snd k,
          g_count = length g,
          g_avgConfidence = avg (map confidence g),
          g_highPriorityCount = length (filter (\<lambda>d. priority d \<in> set [''high'', ''urgent'']) g),
          g_actionableCount = length (filter isActionable g)\<rparr>)"

text \<open>
  \<^verbatim>\<open>startDate.setDate(startDate.getDate() - days)\<close> and
  \<^verbatim>\<open>Date.now() - days * 24 * 60 * 60 * 1000\<close>, on a server whose time zone has no
  clock change in the window: \<open>days\<close> days of 86400000 milliseconds before \<open>now\<close>.
\<close>

definition startDate :: "int \<Rightarrow> int \<Rightarrow> int" where
  "startDate now days = now - days * 86400000"

text \<open>
  The pipeline: \<^verbatim>\<open>$match\<close> on the user and \<open>createdAt\<close>, \<^verbatim>\<open>$group\<close> by type and
  category, \<^verbatim>\<open>$sort\<close> by count, descending. It has no condition on \<open>expiresAt\<close>.
\<close>

definition getInsightsSummary :: "int \<Rightarrow> string \<Rightarrow> int \<Rightarrow> Insight list \<Rightarrow> summary_group list" where
  "getInsightsSummary now uid days store =
     (let matched = filter (\<lambda>d. i_userId d = uid \<and> startDate now days \<le> i_createdAt d) store
      in sort_docs (\<lambda>a b. g_count b < g_count a)
           (map (group_of matched) (remdups (map (\<lambda>d. (i_type d, category d)) matched))))"

text \<open>
  When ingestion must fail, as the specification words it: the confidence is outside
  \<open>[0, 1]\<close>, or \<open>expiresAt\<close> is not strictly in the future, or the type, the category or
  the priority is outside its enumeration. (An absent priority takes the default.)
\<close>

definition spec_must_reject :: "int \<Rightarrow> insight_input \<Rightarrow> bool" where
  "spec_must_reject now x =
     ((case n_confidence x of None \<Rightarrow> True | Some c \<Rightarrow> c < 0 \<or> 1 < c)
      \<or> (case n_expiresAt x of None \<Rightarrow> True | Some e \<Rightarrow> e \<le> now)
      \<or> (case n_type x of None \<Rightarrow> True | Some t \<Rightarrow> t \<notin> set type_enum)
      \<or> (case n_category x of None \<Rightarrow> True | Some c \<Rightarrow> c \<notin> set category_enum)
      \<or> (case n_priority x of None \<Rightarrow> False | Some p \<Rightarrow> p \<notin> set priority_enum))"

section \<open>The insight routes\<close>

subsection \<open>GET /api/insights\<close>

text \<open>
  \<^verbatim>\<open>req.query\<close> with the defaults of the route filled in and \<open>page\<close> and \<open>limit\<close>
  parsed (\<^verbatim>\<open>parseInt\<close>) to non-negative integers. The other parameters are the raw
  strings of the query, absent or present.
\<close>

record list_query =
  q_page :: nat
  q_limit :: nat
  q_type :: "string option"
  q_category :: "string option"
  q_priority :: "string option"
  q_isRead :: "string option"
  q_isActionable :: "string option"
  q_sort :: string
  q_order :: string

definition default_query :: list_query where
  "default_query =
     \<lparr>q_page = 1, q_limit = 10, q_type = None, q_category = None, q_priority = None,
      q_isRead = None, q_isActionable = None, q_sort = ''createdAt'', q_order = ''desc''\<rparr>"

text \<open>\<^verbatim>\<open>if (type) { filter.type = type; }\<close>: an absent or empty parameter adds no condition.\<close>

definition string_filter :: "string option \<Rightarrow> string \<Rightarrow> bool" where
  "string_filter p v = (case p of None \<Rightarrow> True | Some s \<Rightarrow> s = [] \<or> v = s)"

text \<open>\<^verbatim>\<open>if (isRead !== undefined) { filter.isRead = isRead === 'true'; }\<close>\<close>

definition bool_filter :: "string option \<Rightarrow> bool \<Rightarrow> bool" where
  "bool_filter p v = (case p of None \<Rightarrow> True | Some s \<Rightarrow> v = (s = ''true''))"

text \<open>The \<open>filter\<close> object of the route. It holds no condition on \<open>expiresAt\<close>.\<close>

definition list_filter :: "string \<Rightarrow> list_query \<Rightarrow> Insight \<Rightarrow> bool" where
  "list_filter uid q d =
     (i_userId d = uid \<and> string_filter (q_type q) (i_type d)
      \<and> string_filter (q_category q) (category d) \<and> string_filter (q_priority q) (priority d)
      \<and> bool_filter (q_isRead q) (isRead d) \<and> bool_filter (q_isActionable q) (isActionable d))"

definition sortOrder :: "string \<Rightarrow> int" where
  "sortOrder ord = (if ord = ''asc'' then 1 else -1)"

text \<open>
  The route: the page of insights and \<open>total\<close>. Page \<open>0\<close> asks the database to skip a
  negative number of documents, which it refuses; the route answers 500.
\<close>

definition get_insights :: "string \<Rightarrow> list_query \<Rightarrow> Insight list \<Rightarrow> error + (Insight list \<times> nat)" where
  "get_insights uid q store =
     (if q_page q = 0 \<and> q_limit q \<noteq> 0 then Inl Server_Error
      else Inr (limit_docs (q_limit q)
                  (drop ((q_page q - 1) * q_limit q)
                     (sort_docs (sort_before [(q_sort q, sortOrder (q_order q))])
                        (filter (list_filter uid q) store))),
                length (filter (list_filter uid q) store)))"

subsection \<open>GET /api/insights/actionable\<close>

definition get_actionable :: "int \<Rightarrow> string \<Rightarrow> nat \<Rightarrow> Insight list \<Rightarrow> Insight list" where
  "get_actionable now uid n store = getActionableInsights now uid n store"

subsection \<open>GET /api/insights/summary\<close>

record summary_response =
  s_totalInsights :: nat
  s_highPriorityCount :: nat
  s_actionableCount :: nat
  s_avgConfidence :: rat
  s_breakdown :: "summary_group list"
  s_recentInsights :: "Insight list"

text \<open>
  \<^verbatim>\<open>summary.reduce((acc, item) => acc + item.avgConfidence, 0) / summary.length\<close>, or
  \<open>0\<close> for no groups; then \<^verbatim>\<open>Math.round(avgConfidence * 100) / 100\<close>. The sums,
  quotients and products of the summary are exact in the model; they are the
  server's doubles wherever every intermediate result is a double (a multiple of a
  power of two), as with confidences such as 0, 0.5 and 1.
\<close>

definition avgConfidence :: "summary_group list \<Rightarrow> rat" where
  "avgConfidence summary =
     (if 0 < length summary
      then foldl (\<lambda>acc item. acc + g_avgConfidence item) 0 summary / of_nat (length summary)
      else 0)"

definition get_summary :: "int \<Rightarrow> string \<Rightarrow> int \<Rightarrow> Insight list \<Rightarrow> summary_response" where
  "get_summary now uid days store =
     (let summary = getInsightsSummary now uid days store;
          recentInsights =
            limit_docs 5 (sort_docs (sort_before [(''createdAt'', -1)])
              (filter (\<lambda>d. i_userId d = uid \<and> expiresAt_gt now d) store))
      in \<lparr>s_totalInsights = foldl (\<lambda>acc item. acc + g_count item) 0 summary,
          s_highPriorityCount = foldl (\<lambda>acc item. acc + g_highPriorityCount item) 0 summary,
          s_actionableCount = foldl (\<lambda>acc item. acc + g_actionableCount item) 0 summary,
          s_avgConfidence = Math_round (avgConfidence summary * 100) / 100,
          s_breakdown = summary,
          s_recentInsights = recentInsights\<rparr>)"

text \<open>
  The average as the specification words it: the plain mean of \<open>confidence\<close> over the
  user's insights that were created within the window and have not expired, rounded
  to two decimals, and \<open>0\<close> when there is none.
\<close>

definition spec_avgConfidence :: "int \<Rightarrow> string \<Rightarrow> int \<Rightarrow> Insight list \<Rightarrow> rat" where
  "spec_avgConfidence now uid days store =
     (let xs = map confidence
                 (filter (\<lambda>d. i_userId d = uid \<and> startDate now days \<le> i_createdAt d
                              \<and> expiresAt_gt now d) store)
      in if xs = [] then 0 else Math_round (avg xs * 100) / 100)"

subsection \<open>GET /api/insights/:id\<close>

text \<open>
  In this route and in the three that follow, the id of the request is an abstract
  string, taken to be well-formed: an id that is no ObjectId makes the cast of the
  query fail, the route answers 500, and that case is outside the model.
\<close>

definition get_insight :: "string \<Rightarrow> string \<Rightarrow> Insight list \<Rightarrow> error + Insight" where
  "get_insight uid iid store =
     (case findOne (\<lambda>d. i_id d = iid \<and> i_userId d = uid) store of
        None \<Rightarrow> Inl Not_Found
      | Some insight \<Rightarrow> Inr insight)"

subsection \<open>PUT /api/insights/:id/read and PUT /api/insights/:id/action-taken\<close>

text \<open>
  Both routes update through \<^verbatim>\<open>findOneAndUpdate\<close> with \<^verbatim>\<open>$set\<close>; the schema's
  timestamps stamp \<open>updatedAt\<close> on every update. The result is the collection after
  the request.
\<close>

definition put_read :: "int \<Rightarrow> string \<Rightarrow> string \<Rightarrow> Insight list \<Rightarrow> error + Insight list" where
  "put_read now uid iid store =
     (case findOneAndUpdate (\<lambda>d. i_id d = iid \<and> i_userId d = uid)
             (\<lambda>d. d\<lparr>isRead := True, i_updatedAt := now\<rparr>) store of
        None \<Rightarrow> Inl Not_Found
      | Some (store', insight) \<Rightarrow> Inr store')"

definition put_action_taken :: "int \<Rightarrow> string \<Rightarrow> string \<Rightarrow> Insight list \<Rightarrow> error + Insight list" where
  "put_action_taken now uid iid store =
     (case findOneAndUpdate (\<lambda>d. i_id d = iid \<and> i_userId d = uid)
             (\<lambda>d. d\<lparr>actionTaken := True, actionTakenAt := Some now, i_updatedAt := now\<rparr>) store of
        None \<Rightarrow> Inl Not_Found
      | Some (store', insight) \<Rightarrow> Inr store')"

subsection \<open>DELETE /api/insights/:id\<close>

fun findOneAndDelete :: "('a \<Rightarrow> bool) \<Rightarrow> 'a list \<Rightarrow> ('a list \<times> 'a) option" where
  "findOneAndDelete p [] = None"
| "findOneAndDelete p (d # ds) =
     (if p d then Some (ds, d)
      else (case findOneAndDelete p ds of
              None \<Rightarrow> None
            | Some (ds', r) \<Rightarrow> Some (d # ds', r)))"

definition delete_insight :: "string \<Rightarrow> string \<Rightarrow> Insight list \<Rightarrow> error + Insight list" where
  "delete_insight uid iid store =
     (case findOneAndDelete (\<lambda>d. i_id d = iid \<and> i_userId d = uid) store of
        None \<Rightarrow> Inl Not_Found
      | Some (store', insight) \<Rightarrow> Inr store')"

section \<open>The mood aggregations (routes/moods.js)\<close>

subsection \<open>Dates as the aggregation operators read them\<close>

text \<open>
  A date is a number of milliseconds since 1970-01-01T00:00:00Z; the operators
  \<^verbatim>\<open>$year\<close> and \<^verbatim>\<open>$week\<close> read it in UTC. \<open>epoch_day\<close> is the number of the day.
\<close>

definition epoch_day :: "int \<Rightarrow> int" where
  "epoch_day ms = ms div 86400000"

text \<open>
  \<open>jan1 y\<close> is the day number of the first of January of the year \<open>y\<close> of the
  proleptic Gregorian calendar: 365 days for every year before it and one more for
  every leap year among them, counted from 0001-01-01, which is day \<open>-719162\<close>.
\<close>

definition jan1 :: "int \<Rightarrow> int" where
  "jan1 y = 365 * (y - 1) + (y - 1) div 4 - (y - 1) div 100 + (y - 1) div 400 - 719162"

text \<open>A year has at least one day; the searches below end for that reason.\<close>

lemma div_step:
  fixes y k :: int
  assumes "0 < k"
  shows "y div k = (y - 1) div k + (if k dvd y then 1 else 0)"
proof (cases "k dvd y")
  case True
  then obtain q where q: "y = k * q" by (auto simp: dvd_def)
  have "(k * q - 1) div k = q - 1"
  proof -
    have "(k * q - 1) div k = ((k - 1) + k * (q - 1)) div k"
      by (rule arg_cong[where f = "\<lambda>x. x div k"]) (simp add: algebra_simps)
    also have "\<dots> = (k - 1) div k + (q - 1)" using assms by simp
    also have "(k - 1) div k = 0" using assms by (simp add: div_pos_pos_trivial)
    finally show ?thesis by simp
  qed
  with True q assms show ?thesis by simp
next
  case False
  define r where "r = y mod k"
  define q where "q = y div k"
  have y: "y = k * q + r" by (simp add: q_def r_def)
  have "0 \<le> r" "r \<noteq> 0" "r < k"
    using False assms by (simp_all add: r_def dvd_eq_mod_eq_0)
  then have r: "0 < r" "r < k" by simp_all
  have "(y - 1) div k = (k * q + (r - 1)) div k"
    by (rule arg_cong[where f = "\<lambda>x. x div k"]) (use y in linarith)
  also have "\<dots> = q + (r - 1) div k" using assms by simp
  also have "(r - 1) div k = 0" using r by (simp add: div_pos_pos_trivial)
  finally show ?thesis using False by (simp add: q_def)
qed

lemma jan1_step: "jan1 y < jan1 (y + 1)"
proof -
  have a: "y div 4 = (y - 1) div 4 + (if 4 dvd y then 1 else 0)" by (rule div_step) simp
  have b: "y div 100 = (y - 1) div 100 + (if 100 dvd y then 1 else 0)" by (rule div_step) simp
  have c: "y div 400 = (y - 1) div 400 + (if 400 dvd y then 1 else 0)" by (rule div_step) simp
  have d: "100 dvd y \<Longrightarrow> 4 dvd y" by (rule dvd_trans[of 4 100 y]) simp_all
  have "jan1 (y + 1) = 365 * y + y div 4 - y div 100 + y div 400 - 719162"
    by (simp add: jan1_def)
  then show ?thesis unfolding jan1_def using a b c d by (auto split: if_splits)
qed

text \<open>
  The year that a day falls in is the year \<open>y\<close> with \<open>jan1 y \<le> z < jan1 (y + 1)\<close>.
  It is found from an estimate, by stepping down to a year that begins on or before
  the day and then up to the last such year.
\<close>

function year_down :: "int \<Rightarrow> int \<Rightarrow> int" where
  "year_down y z = (if z < jan1 y then year_down (y - 1) z else y)"
  by pat_completeness auto
termination
proof (relation "measure (\<lambda>(y, z). nat (jan1 y - z))")
  show "wf (measure (\<lambda>(y, z). nat (jan1 y - z)))" by simp
next
  fix y z :: int
  assume "z < jan1 y"
  with jan1_step[of "y - 1"] show "((y - 1, z), (y, z)) \<in> measure (\<lambda>(y, z). nat (jan1 y - z))"
    by simp
qed

function year_up :: "int \<Rightarrow> int \<Rightarrow> int" where
  "year_up y z = (if jan1 (y + 1) \<le> z then year_up (y + 1) z else y)"
  by pat_completeness auto
termination
proof (relation "measure (\<lambda>(y, z). nat (z + 1 - jan1 y))")
  show "wf (measure (\<lambda>(y, z). nat (z + 1 - jan1 y)))" by simp
next
  fix y z :: int
  assume "jan1 (y + 1) \<le> z"
  with jan1_step[of y] show "((y + 1, z), (y, z)) \<in> measure (\<lambda>(y, z). nat (z + 1 - jan1 y))"
    by simp
qed

definition civil_year :: "int \<Rightarrow> int" where
  "civil_year z = year_up (year_down (1970 + (400 * z) div 146097) z) z"

text \<open>\<^verbatim>\<open>{ $year: '$createdAt' }\<close>\<close>

definition year_op :: "int \<Rightarrow> int" where
  "year_op ms = civil_year (epoch_day ms)"

text \<open>
  \<^verbatim>\<open>{ $week: '$createdAt' }\<close>: the week of the year, \<open>0\<close> to \<open>53\<close>. Weeks begin on
  Sunday and week \<open>1\<close> begins with the first Sunday of the year; the days before it
  are in week \<open>0\<close>. (Day \<open>0\<close> of the epoch was a Thursday.)
\<close>

definition week_op :: "int \<Rightarrow> int" where
  "week_op ms =
     (let z = epoch_day ms;
          yday = z - jan1 (civil_year z);
          wday = (z + 4) mod 7
      in (yday + 7 - wday) div 7)"

text \<open>
  The ISO 8601 week of a date, which the specification names: weeks begin on Monday
  and belong to the year that holds their Thursday; week \<open>1\<close> is the week of the
  year's first Thursday.
\<close>

definition iso_thursday :: "int \<Rightarrow> int" where
  "iso_thursday ms = (let z = epoch_day ms in z - (z + 3) mod 7 + 3)"

definition isoWeekYear :: "int \<Rightarrow> int" where
  "isoWeekYear ms = civil_year (iso_thursday ms)"

definition isoWeek :: "int \<Rightarrow> int" where
  "isoWeek ms = (iso_thursday ms - jan1 (isoWeekYear ms)) div 7 + 1"

subsection \<open>Fields of a stored document\<close>

text \<open>
  A field path of the pipeline, such as \<^verbatim>\<open>'$intensity'\<close>, reads the stored document.
  Of the paths with a number the model keeps \<open>intensity\<close>. \<open>moodScore\<close> is a virtual
  of the Mongoose schema, computed by a getter in the server; the stored document
  has no such field, and to the pipeline the path is missing.
\<close>

definition stored_number :: "string \<Rightarrow> MoodLog \<Rightarrow> rat option" where
  "stored_number f d = (if f = ''intensity'' then Some (intensity d) else None)"

text \<open>
  \<^verbatim>\<open>$avg\<close> as an accumulator: it ignores missing and non-numeric values, and is
  \<open>null\<close> (\<open>None\<close>) when no value is a number.
\<close>

definition avg_acc :: "rat option list \<Rightarrow> rat option" where
  "avg_acc vs =
     (let xs = concat (map (\<lambda>v. case v of None \<Rightarrow> [] | Some x \<Rightarrow> [x]) vs)
      in if xs = [] then None else Some (avg xs))"

subsection \<open>GET /api/moods/trends: the weekly mood scores\<close>

record week_score =
  w_year :: int
  w_week :: int
  w_avgMoodScore :: "rat option"
  w_count :: nat

definition in_window :: "int \<Rightarrow> string \<Rightarrow> int \<Rightarrow> MoodLog \<Rightarrow> bool" where
  "in_window now uid days d = (m_userId d = uid \<and> startDate now days \<le> m_createdAt d)"

definition week_key :: "MoodLog \<Rightarrow> int \<times> int" where
  "week_key d = (year_op (m_createdAt d), week_op (m_createdAt d))"

definition week_group :: "MoodLog list \<Rightarrow> int \<times> int \<Rightarrow> week_score" where
  "week_group ds k =
     (let g = filter (\<lambda>d. week_key d = k) ds
      in \<lparr>w_year = fst k, w_week = snd k,
          w_avgMoodScore = avg_acc (map (stored_number ''moodScore'') g),
          w_count = length g\<rparr>)"

text \<open>\<^verbatim>\<open>$sort: { '_id.year': 1, '_id.week': 1 }\<close>\<close>

definition week_before :: "week_score \<Rightarrow> week_score \<Rightarrow> bool" where
  "week_before a b = (w_year a < w_year b \<or> (w_year a = w_year b \<and> w_week a < w_week b))"

definition weeklyScores :: "int \<Rightarrow> string \<Rightarrow> int \<Rightarrow> MoodLog list \<Rightarrow> week_score list" where
  "weeklyScores now uid days store =
     (let matched = filter (in_window now uid days) store
      in sort_docs week_before (map (week_group matched) (remdups (map week_key matched))))"

subsection \<open>GET /api/moods/summary\<close>

text \<open>The values that the expressions of the pipeline compute.\<close>

datatype bson = BNull | BNum rat | BStr string | BArr "bson list" | BObj "(string \<times> bson) list"

definition bind :: "error + 'a \<Rightarrow> ('a \<Rightarrow> error + 'b) \<Rightarrow> error + 'b" where
  "bind r f = (case r of Inl e \<Rightarrow> Inl e | Inr v \<Rightarrow> f v)"

fun map_result :: "('a \<Rightarrow> error + 'b) \<Rightarrow> 'a list \<Rightarrow> error + 'b list" where
  "map_result f [] = Inr []"
| "map_result f (x # xs) =
     bind (f x) (\<lambda>y. bind (map_result f xs) (\<lambda>ys. Inr (y # ys)))"

fun obj_put :: "string \<Rightarrow> bson \<Rightarrow> (string \<times> bson) list \<Rightarrow> (string \<times> bson) list" where
  "obj_put k v [] = [(k, v)]"
| "obj_put k v ((k', v') # kvs) = (if k' = k then (k, v) # kvs else (k', v') # obj_put k v kvs)"

text \<open>\<^verbatim>\<open>{ $mergeObjects: [a, b] }\<close>: the fields of \<open>b\<close> are written over those of \<open>a\<close>.\<close>

fun mergeObjects :: "bson \<Rightarrow> bson \<Rightarrow> error + bson" where
  "mergeObjects (BObj a) (BObj b) = Inr (BObj (foldl (\<lambda>acc kv. obj_put (fst kv) (snd kv) acc) a b))"
| "mergeObjects (BObj a) BNull = Inr (BObj a)"
| "mergeObjects BNull (BObj b) = Inr (BObj b)"
| "mergeObjects BNull BNull = Inr (BObj [])"
| "mergeObjects _ _ = Inl Server_Error"

text \<open>An element \<^verbatim>\<open>{ k: key, v: value }\<close> of the array given to \<^verbatim>\<open>$arrayToObject\<close>.\<close>

fun kv_pair :: "bson \<Rightarrow> error + (string \<times> bson)" where
  "kv_pair (BObj [(a, BStr k), (b, v)]) =
     (if a = ''k'' \<and> b = ''v'' then Inr (k, v) else Inl Server_Error)"
| "kv_pair _ = Inl Server_Error"

fun arrayToObject :: "bson \<Rightarrow> error + bson" where
  "arrayToObject (BArr xs) =
     bind (map_result kv_pair xs) (\<lambda>kvs. Inr (BObj (foldl (\<lambda>acc kv. obj_put (fst kv) (snd kv) acc) [] kvs)))"
| "arrayToObject BNull = Inr BNull"
| "arrayToObject _ = Inl Server_Error"

fun objectToArray :: "bson \<Rightarrow> error + bson" where
  "objectToArray (BObj kvs) = Inr (BArr (map (\<lambda>kv. BObj [(''k'', BStr (fst kv)), (''v'', snd kv)]) kvs))"
| "objectToArray BNull = Inr BNull"
| "objectToArray _ = Inl Server_Error"

fun fold_result :: "(bson \<Rightarrow> bson \<Rightarrow> error + bson) \<Rightarrow> bson \<Rightarrow> bson list \<Rightarrow> error + bson" where
  "fold_result f v [] = Inr v"
| "fold_result f v (x # xs) = bind (f v x) (\<lambda>v'. fold_result f v' xs)"

text \<open>
  \<^verbatim>\<open>{ $reduce: { input, initialValue, in } }\<close>; \<open>f value this\<close> is the \<^verbatim>\<open>in\<close>
  expression. The database folds an array, gives \<open>null\<close> for \<open>null\<close>, and raises an
  error for any other input. The flag \<open>wrap\<close> is no behaviour of the database: with
  \<open>wrap\<close> set, a value that is no array is read as the array of that one value, the
  reading under which the expression of the route computes anything at all.
\<close>

fun reduce_op :: "bool \<Rightarrow> bson \<Rightarrow> bson \<Rightarrow> (bson \<Rightarrow> bson \<Rightarrow> error + bson) \<Rightarrow> error + bson" where
  "reduce_op wrap (BArr xs) init f = fold_result f init xs"
| "reduce_op wrap BNull init f = Inr BNull"
| "reduce_op wrap x init f = (if wrap then fold_result f init [x] else Inl Server_Error)"

text \<open>\<^verbatim>\<open>{ $map: { input, as, in } }\<close>\<close>

fun map_op :: "bson \<Rightarrow> (bson \<Rightarrow> error + bson) \<Rightarrow> error + bson" where
  "map_op (BArr xs) f = bind (map_result f xs) (\<lambda>ys. Inr (BArr ys))"
| "map_op BNull f = Inr BNull"
| "map_op _ f = Inl Server_Error"

text \<open>The field path \<^verbatim>\<open>'$$mood.k'\<close>: a field of an object, \<open>null\<close> where there is none.\<close>

fun get_field :: "string \<Rightarrow> bson \<Rightarrow> error + bson" where
  "get_field k (BObj kvs) = Inr (case map_of kvs k of None \<Rightarrow> BNull | Some v \<Rightarrow> v)"
| "get_field k _ = Inr BNull"

text \<open>\<^verbatim>\<open>{ $arrayElemAt: [array, 0] }\<close>\<close>

fun arrayElemAt0 :: "bson \<Rightarrow> error + bson" where
  "arrayElemAt0 (BArr (x # xs)) = Inr x"
| "arrayElemAt0 (BArr []) = Inr BNull"
| "arrayElemAt0 BNull = Inr BNull"
| "arrayElemAt0 _ = Inl Server_Error"

text \<open>
  The expression under \<^verbatim>\<open>dominantMood: { $first: ... }\<close>, on one document: a
  \<^verbatim>\<open>$reduce\<close> whose input is the string \<^verbatim>\<open>'$mood'\<close>, then \<^verbatim>\<open>$objectToArray\<close>,
  \<^verbatim>\<open>$map\<close> to the keys, and the element at index \<open>0\<close>.
\<close>

definition dominantMood_expr :: "bool \<Rightarrow> MoodLog \<Rightarrow> error + bson" where
  "dominantMood_expr wrap d =
     bind (bind (bind
       (reduce_op wrap (BStr (mood d)) (BObj [])
          (\<lambda>val this. bind (arrayToObject (BArr [BObj [(''k'', this), (''v'', BNum 1)]]))
                              (mergeObjects val)))
       objectToArray)
       (\<lambda>a. map_op a (get_field ''k'')))
       arrayElemAt0"

text \<open>
  The document of the \<^verbatim>\<open>$group\<close> stage (\<^verbatim>\<open>_id: null\<close>: one group of all matched
  documents). The list \<open>moodDistribution\<close> that the stage also pushes, and what the
  route computes from it, are left out.
\<close>

record mood_summary =
  totalLogs :: nat
  avgMoodScore :: "rat option"
  dominantMood :: bson

text \<open>
  The pipeline: no output document when nothing matches; else the accumulators, the
  expression of each evaluated on every document and \<^verbatim>\<open>$first\<close> keeping the value of
  the first.
\<close>

definition summary_aggregate :: "bool \<Rightarrow> int \<Rightarrow> string \<Rightarrow> int \<Rightarrow> MoodLog list \<Rightarrow> error + mood_summary list" where
  "summary_aggregate wrap now uid days store =
     (let matched = filter (in_window now uid days) store
      in bind (map_result (dominantMood_expr wrap) matched)
           (\<lambda>vs. case vs of
                    [] \<Rightarrow> Inr []
                  | v # _ \<Rightarrow>
                      Inr [\<lparr>totalLogs = length matched,
                            avgMoodScore = avg_acc (map (stored_number ''moodScore'') matched),
                            dominantMood = v\<rparr>]))"

text \<open>
  The route: \<^verbatim>\<open>summary[0] || { totalLogs: 0, avgMoodScore: 0, dominantMood: 'neutral' }\<close>;
  an error of the pipeline reaches the \<^verbatim>\<open>catch\<close> and the answer is 500.
\<close>

definition get_mood_summary :: "bool \<Rightarrow> int \<Rightarrow> string \<Rightarrow> int \<Rightarrow> MoodLog list \<Rightarrow> error + mood_summary" where
  "get_mood_summary wrap now uid days store =
     bind (summary_aggregate wrap now uid days store)
       (\<lambda>summary. case summary of
                     [] \<Rightarrow> Inr \<lparr>totalLogs = 0, avgMoodScore = Some 0, dominantMood = BStr ''neutral''\<rparr>
                   | s # _ \<Rightarrow> Inr s)"

text \<open>How many of the documents carry a given mood tag.\<close>

definition mood_count :: "string \<Rightarrow> MoodLog list \<Rightarrow> nat" where
  "mood_count m ds = length (filter (\<lambda>d. mood d = m) ds)"

text \<open>The \<^verbatim>\<open>_id\<close> of a group of the weekly scores: its year and week.\<close>

definition wkey :: "week_score \<Rightarrow> int \<times> int" where
  "wkey w = (w_year w, w_week w)"

section \<open>Sample data\<close>

text \<open>
  An actionable insight of user \<open>u1\<close> that nobody has acted on and that expires at
  time \<open>1000\<close>; the arguments are its id, priority, confidence and creation time.
\<close>

definition sample_insight :: "string \<Rightarrow> string \<Rightarrow> rat \<Rightarrow> int \<Rightarrow> Insight" where
  "sample_insight oid pr c t =
     \<lparr>i_id = oid, i_userId = ''u1'', i_type = ''recommendation'', title = ''t'', description = ''d'',
      confidence = c, priority = pr, category = ''actionable'', visualizations = [],
      source = ''ml_analysis'', isRead = False, isActionable = True, actionTaken = False,
      actionTakenAt = None, expiresAt = Some 1000, i_createdAt = t, i_updatedAt = t\<rparr>"

text \<open>
  The four insights of the specification's example: priorities low, urgent, high,
  urgent with confidences 0.9, 0.5, 0.9, 0.9.
\<close>

definition four_insights :: "Insight list" where
  "four_insights =
     [sample_insight ''a'' ''low'' (9 / 10) 1, sample_insight ''b'' ''urgent'' (5 / 10) 2,
      sample_insight ''c'' ''high'' (9 / 10) 3, sample_insight ''d'' ''urgent'' (9 / 10) 4]"

text \<open>
  Four insights in two groups: three of type \<open>recommendation\<close> with confidence \<open>1\<close>
  and one of type \<open>forecast\<close> with confidence \<open>0\<close>.
\<close>

definition two_groups :: "Insight list" where
  "two_groups =
     [sample_insight ''a'' ''low'' 1 1, sample_insight ''b'' ''low'' 1 2,
      sample_insight ''c'' ''low'' 1 3,
      (sample_insight ''d'' ''low'' 0 4)\<lparr>i_type := ''forecast'', category := ''predictive''\<rparr>]"

text \<open>A valid submission; it asks for an \<open>expiresAt\<close> of \<open>5\<close>.\<close>

definition sample_input :: insight_input where
  "sample_input =
     \<lparr>n_userId = Some ''u1'', n_type = Some ''forecast'', n_title = Some ''t'',
      n_description = Some ''d'', n_confidence = Some (1 / 2), n_priority = None,
      n_category = Some ''predictive'', n_visualizations = [], n_source = None,
      n_isRead = None, n_isActionable = None, n_actionTaken = None, n_actionTakenAt = None,
      n_expiresAt = Some 5\<rparr>"

text \<open>A mood log of user \<open>u1\<close>; the arguments are its id, mood, intensity and creation time.\<close>

definition sample_mood :: "string \<Rightarrow> string \<Rightarrow> rat \<Rightarrow> int \<Rightarrow> MoodLog" where
  "sample_mood oid m i t =
     \<lparr>m_id = oid, m_userId = ''u1'', mood = m, intensity = i, m_context = Some ''general'',
      transactionId = None, m_notes = None, triggers = [], m_createdAt = t, m_updatedAt = t\<rparr>"

text \<open>A request body with no key.\<close>

definition empty_body :: update_body where
  "empty_body =
     \<lparr>b_userId = None, b_mood = None, b_intensity = None, b_context = None,
      b_transactionId = None, b_notes = None, b_triggers = None\<rparr>"

text \<open>
  Sunday 2024-01-07 and Monday 2024-01-08, at midnight UTC: the days \<open>19729\<close> and
  \<open>19730\<close> of the epoch.
\<close>

definition sunday :: int where
  "sunday = 19729 * 86400000"

definition monday :: int where
  "monday = 19730 * 86400000"

text \<open>Three mood logs inside one window: one sad, then two happy.\<close>

definition three_moods :: "MoodLog list" where
  "three_moods =
     [sample_mood ''e1'' ''sad'' 5 90, sample_mood ''e2'' ''happy'' 5 91,
      sample_mood ''e3'' ''happy'' 5 92]"

text \<open>Saturday 2024-01-06, the day before.\<close>

definition saturday :: int where
  "saturday = 19728 * 86400000"

section \<open>Properties of the rounding\<close>

text \<open>The bit length of a positive integer brackets it between powers of two.\<close>

lemma bitlen_powi:
  assumes "0 < p"
  shows "(2::rat) powi (bitlen p - 1) \<le> of_int p \<and> of_int p < (2::rat) powi (bitlen p)"
proof -
  from bitlen_bounds[OF assms] have a: "2 ^ nat (bitlen p - 1) \<le> p" and b: "p < 2 ^ nat (bitlen p)"
    by blast+
  from a assms have ge: "1 \<le> bitlen p"
    by (metis bitlen_eq_zero_iff bitlen_nonneg linorder_not_less int_one_le_iff_zero_less order_le_less)
  have "(of_int (2 ^ nat (bitlen p - 1)) :: rat) \<le> of_int p" using a by (simp only: of_int_le_iff)
  then have l: "(2::rat) powi (bitlen p - 1) \<le> of_int p" using ge by (simp add: power_int_def)
  have "(of_int p :: rat) < of_int (2 ^ nat (bitlen p))" using b by (simp only: of_int_less_iff)
  then have u: "of_int p < (2::rat) powi (bitlen p)" using ge by (simp add: power_int_def)
  from l u show ?thesis by blast
qed

text \<open>\<open>log2_floor\<close> is the exponent of the binade of a positive number.\<close>

lemma log2_floor_bounds:
  assumes "0 < x"
  shows "2 powi (log2_floor x) \<le> x \<and> x < 2 powi (log2_floor x + 1)"
proof -
  obtain p q where pq: "quotient_of x = (p, q)" by (cases "quotient_of x")
  then have q: "0 < q" and x: "x = of_int p / of_int q"
    using quotient_of_denom_pos quotient_of_div by auto
  with assms have p: "0 < p" by (simp add: zero_less_divide_iff)
  define k where "k = bitlen p - bitlen q"
  have two: "(2::rat) \<noteq> 0" by simp
  from bitlen_powi[OF p] have p1: "(2::rat) powi (bitlen p - 1) \<le> of_int p"
    and p2: "of_int p < (2::rat) powi (bitlen p)" by blast+
  from bitlen_powi[OF q] have q1: "(2::rat) powi (bitlen q - 1) \<le> of_int q"
    and q2: "of_int q < (2::rat) powi (bitlen q)" by blast+
  have qpos: "(0::rat) < of_int q" using q by simp
  have lo: "2 powi (k - 1) < x"
  proof -
    have "(2::rat) powi (k - 1) * of_int q < 2 powi (k - 1) * 2 powi (bitlen q)"
      using q2 by (simp add: mult_strict_left_mono)
    also have "\<dots> = 2 powi (bitlen p - 1)"
      unfolding k_def by (simp add: power_int_add[symmetric])
    also have "\<dots> \<le> of_int p" by (rule p1)
    finally show ?thesis using qpos unfolding x by (simp add: pos_less_divide_eq)
  qed
  have hi: "x < 2 powi (k + 1)"
  proof -
    have "of_int p < (2::rat) powi (bitlen p)" by (rule p2)
    also have "\<dots> = 2 powi (k + 1) * 2 powi (bitlen q - 1)"
      unfolding k_def by (simp add: power_int_add[symmetric])
    also have "\<dots> \<le> 2 powi (k + 1) * of_int q"
      using q1 by (simp add: mult_left_mono)
    finally show ?thesis using qpos unfolding x by (simp add: pos_divide_less_eq)
  qed
  have l: "log2_floor x = (if 2 powi k \<le> x then k else k - 1)"
    by (simp add: log2_floor_def pq k_def Let_def)
  show ?thesis
  proof (cases "2 powi k \<le> x")
    case True
    with l hi show ?thesis by simp
  next
    case False
    with l lo show ?thesis by simp
  qed
qed

text \<open>Rounding to the nearest integer does not pass an integer.\<close>

lemma round_half_even_le:
  assumes "y \<le> of_int m"
  shows "round_half_even y \<le> m"
proof -
  have f: "\<lfloor>y\<rfloor> \<le> m" using assms by (simp add: floor_le_iff)
  show ?thesis
  proof (cases "\<lfloor>y\<rfloor> = m")
    case True
    then have "y - of_int \<lfloor>y\<rfloor> \<le> 0" using assms by simp
    then have "y - of_int \<lfloor>y\<rfloor> < 1 / 2" by simp
    then show ?thesis using True by (simp add: round_half_even_def Let_def)
  next
    case False
    with f have "\<lfloor>y\<rfloor> + 1 \<le> m" by simp
    then show ?thesis by (simp add: round_half_even_def Let_def)
  qed
qed

lemma round_half_even_ge: "\<lfloor>y\<rfloor> \<le> round_half_even y"
  by (simp add: round_half_even_def Let_def)

text \<open>Rounding to a double keeps a positive number positive.\<close>

lemma fl_pos:
  assumes "0 < x"
  shows "0 < fl x"
proof -
  define e where "e = log2_floor x"
  define u :: rat where "u = 2 powi (e - 52)"
  have u: "0 < u" by (simp add: u_def)
  have "2 powi e \<le> x" using log2_floor_bounds[OF assms] by (simp add: e_def)
  then have "2 powi e / u \<le> x / u" using u by (simp add: divide_right_mono)
  moreover have "2 powi e / u = (2::rat) powi 52"
    unfolding u_def by (simp add: power_int_diff)
  ultimately have "1 \<le> x / u" by simp
  then have "1 \<le> \<lfloor>x / u\<rfloor>" by simp
  with round_half_even_ge[of "x / u"] have "0 < round_half_even (x / u)" by linarith
  then have "0 < of_int (round_half_even (x / u)) * u" using u by simp
  then show ?thesis using assms by (simp add: fl_def e_def u_def Let_def)
qed

text \<open>Rounding to a double does not pass an integer below \<open>2^53\<close>, which is a double.\<close>

lemma fl_le_int:
  assumes "0 < x" and "x \<le> of_int c" and "c < 2 ^ 53"
  shows "fl x \<le> of_int c"
proof -
  define e where "e = log2_floor x"
  define u :: rat where "u = 2 powi (e - 52)"
  have u: "0 < u" by (simp add: u_def)
  have "2 powi e \<le> x" using log2_floor_bounds[OF assms(1)] by (simp add: e_def)
  also have "x \<le> of_int c" by (rule assms(2))
  also have "(of_int c :: rat) < of_int (2 ^ 53)" using assms(3) by (simp only: of_int_less_iff)
  finally have "(2::rat) powi e < 2 powi 53" by simp
  then have e: "e < 53" by (rule power_int_le_imp_less_exp[rotated]) simp_all
  define n where "n = nat (52 - e)"
  have un: "u = 1 / 2 ^ n" using e by (simp add: u_def n_def power_int_def power_one_over)
  have "x / u \<le> of_int c / u" using u assms(2) by (simp add: divide_right_mono)
  also have "of_int c / u = of_int (c * 2 ^ n)" by (simp add: un)
  finally have "round_half_even (x / u) \<le> c * 2 ^ n" by (rule round_half_even_le)
  then have "(of_int (round_half_even (x / u)) :: rat) \<le> of_int (c * 2 ^ n)"
    by (simp only: of_int_le_iff)
  then have "of_int (round_half_even (x / u)) * u \<le> of_int (c * 2 ^ n) * u"
    using u by (simp only: mult_right_mono less_imp_le)
  also have "of_int (c * 2 ^ n) * u = of_int c" by (simp add: un)
  finally show ?thesis using assms(1) by (simp add: fl_def e_def u_def Let_def)
qed

section \<open>The mood score\<close>

text \<open>Every tag of the enumeration is an own key of the table, with the base score of the specification.\<close>

lemma table_lookup:
  assumes "m \<in> set mood_enum"
  shows "get_property moodScores m = JNum (spec_baseScore m) \<and> 1 \<le> spec_baseScore m \<and> spec_baseScore m \<le> 9"
proof -
  from assms have "m = ''happy'' \<or> m = ''neutral'' \<or> m = ''stressed'' \<or> m = ''anxious'' \<or> m = ''excited''
      \<or> m = ''sad'' \<or> m = ''angry'' \<or> m = ''calm'' \<or> m = ''worried'' \<or> m = ''content''"
    by (simp add: mood_enum_def)
  then show ?thesis
    by (elim disjE) (simp_all add: get_property_def moodScores_def spec_baseScore_def)
qed

text \<open>A tenth of an intensity between 1 and 10, as a double.\<close>

lemma fl_tenth:
  assumes "1 \<le> i" and "i \<le> 10"
  shows "0 < fl (i / 10) \<and> fl (i / 10) \<le> 1"
proof -
  have p: "0 < i / 10" using assms by simp
  have q: "i / 10 \<le> of_int 1" using assms by simp
  from fl_pos[OF p] fl_le_int[OF p q] show ?thesis by simp
qed

text \<open>A base score between 1 and 9, times such a tenth, as a double.\<close>

lemma scaled_bounds:
  fixes b t :: rat
  assumes "1 \<le> b" and "b \<le> 9" and "0 < t" and "t \<le> 1"
  shows "0 < fl (b * t) \<and> fl (b * t) \<le> 9"
proof -
  have "0 < b" using assms(1) by simp
  then have p: "0 < b * t" using assms(3) by simp
  have "b * t \<le> 9 * 1" by (rule mult_mono) (use assms in simp_all)
  then have q: "b * t \<le> of_int 9" by simp
  from fl_pos[OF p] fl_le_int[OF p q] show ?thesis by simp
qed

text \<open>The score of the specification lies in \<open>(0, 9]\<close>.\<close>

lemma spec_moodScore_bounds:
  assumes "m \<in> set mood_enum" and "1 \<le> i" and "i \<le> 10"
  shows "0 < spec_moodScore m i \<and> spec_moodScore m i \<le> 9"
proof -
  from table_lookup[OF assms(1)] have b: "1 \<le> spec_baseScore m" "spec_baseScore m \<le> 9" by simp_all
  from fl_tenth[OF assms(2,3)] have t: "0 < fl (i / 10)" "fl (i / 10) \<le> 1" by simp_all
  from scaled_bounds[OF b t] show ?thesis by (simp only: spec_moodScore_def)
qed

text \<open>For a valid mood and intensity the getter takes no fallback.\<close>

lemma moodScore_valid:
  assumes "valid_MoodLog d"
  shows "moodScore d = JNum (spec_moodScore (mood d) (intensity d))"
proof -
  from assms have m: "mood d \<in> set mood_enum" by (simp add: valid_MoodLog_def)
  from table_lookup[OF m] have g: "get_property moodScores (mood d) = JNum (spec_baseScore (mood d))"
    and n: "spec_baseScore (mood d) \<noteq> 0" by auto
  show ?thesis unfolding moodScore_def g spec_moodScore_def using n by (simp add: js_or_def)
qed

text \<open>An update addressed to a document that a query finds reaches that document.\<close>

lemma findOneAndUpdate_found:
  "List.find p ds = Some d \<Longrightarrow> \<exists>ds'. findOneAndUpdate p f ds = Some (ds', f d)"
  by (induction ds) (auto split: if_splits)

text \<open>It replaces that document where it stands and leaves the rest of the collection.\<close>

lemma findOneAndUpdate_split:
  "List.find p ds = Some d \<Longrightarrow>
     \<exists>pre post. ds = pre @ d # post \<and> list_all (\<lambda>x. \<not> p x) pre
       \<and> findOneAndUpdate p f ds = Some (pre @ f d # post, f d)"
proof (induction ds)
  case Nil
  then show ?case by simp
next
  case (Cons a ds)
  show ?case
  proof (cases "p a")
    case True
    with Cons.prems have "a = d" by simp
    with True have "a # ds = [] @ d # ds \<and> list_all (\<lambda>x. \<not> p x) []
        \<and> findOneAndUpdate p f (a # ds) = Some ([] @ f d # ds, f d)" by simp
    then show ?thesis by blast
  next
    case False
    with Cons.prems have "List.find p ds = Some d" by simp
    from Cons.IH[OF this] obtain pre post where e: "ds = pre @ d # post" "list_all (\<lambda>x. \<not> p x) pre"
        "findOneAndUpdate p f ds = Some (pre @ f d # post, f d)" by blast
    with False have "a # ds = (a # pre) @ d # post \<and> list_all (\<lambda>x. \<not> p x) (a # pre)
        \<and> findOneAndUpdate p f (a # ds) = Some ((a # pre) @ f d # post, f d)" by simp
    then show ?thesis by blast
  qed
qed

text \<open>A validated payload keeps a valid mood log valid.\<close>

lemma set_updateData_valid:
  assumes "valid_MoodLog d" and "validationResult body"
  shows "valid_MoodLog (set_updateData now (sanitize body) d)"
  using assms
  by (auto simp: valid_MoodLog_def validationResult_def set_updateData_def sanitize_def
      isIn_def isInt_def split: option.splits)

text \<open>
  Claim C3. For a mood log whose mood is one of the ten tags and whose intensity lies
  in \<open>[1, 10]\<close>, the derived mood score is \<open>baseScore(mood) * (intensity / 10)\<close> with
  the base scores of the specification, computed in doubles as the server computes
  it, a number in \<open>(0, 9]\<close>. When such a log is updated through
  \<open>PUT /api/moods/:id\<close> with a payload that passes validation, the route answers; the
  collection afterwards is the old one with that log replaced, where it stood, by
  the updated log; the updated log carries the new mood and the new intensity (the
  payload's where it gives them, the stored ones otherwise); and the score that the
  route reads back is the getter's value on the updated log, the formula at the new
  mood and intensity: the getter computes the score afresh, no stored field is
  consulted.
\<close>

theorem moodScore_formula:
  assumes "mood d \<in> set mood_enum" and "1 \<le> intensity d" and "intensity d \<le> 10"
  shows "moodScore d = JNum (spec_moodScore (mood d) (intensity d))
    \<and> 0 < spec_moodScore (mood d) (intensity d)
    \<and> spec_moodScore (mood d) (intensity d) \<le> 9
    \<and> (findOne (\<lambda>x. m_id x = eid \<and> m_userId x = uid) store = Some d
         \<and> validationResult body \<and> runValidators (sanitize body) \<longrightarrow>
        (\<exists>pre post d'.
             store = pre @ d # post
           \<and> list_all (\<lambda>x. \<not> (m_id x = eid \<and> m_userId x = uid)) pre
           \<and> put_mood now uid eid body store = Inr (pre @ d' # post, response_of d')
           \<and> d' = set_updateData now (sanitize body) d
           \<and> mood d' = with_default (mood d) (b_mood body)
           \<and> intensity d' = with_default (intensity d) (b_intensity body)
           \<and> r_moodScore (response_of d') = moodScore d'
           \<and> moodScore d' = JNum (spec_moodScore (mood d') (intensity d'))))"
proof -
  have v: "valid_MoodLog d" using assms by (simp add: valid_MoodLog_def)
  have a: "moodScore d = JNum (spec_moodScore (mood d) (intensity d))"
    by (rule moodScore_valid[OF v])
  have b: "0 < spec_moodScore (mood d) (intensity d) \<and> spec_moodScore (mood d) (intensity d) \<le> 9"
    by (rule spec_moodScore_bounds[OF assms])
  have c: "\<exists>pre post d'.
             store = pre @ d # post
           \<and> list_all (\<lambda>x. \<not> (m_id x = eid \<and> m_userId x = uid)) pre
           \<and> put_mood now uid eid body store = Inr (pre @ d' # post, response_of d')
           \<and> d' = set_updateData now (sanitize body) d
           \<and> mood d' = with_default (mood d) (b_mood body)
           \<and> intensity d' = with_default (intensity d) (b_intensity body)
           \<and> r_moodScore (response_of d') = moodScore d'
           \<and> moodScore d' = JNum (spec_moodScore (mood d') (intensity d'))"
    if f: "findOne (\<lambda>x. m_id x = eid \<and> m_userId x = uid) store = Some d"
      and vr: "validationResult body" and r: "runValidators (sanitize body)"
  proof -
    define d' where "d' = set_updateData now (sanitize body) d"
    obtain pre post where s: "store = pre @ d # post"
        "list_all (\<lambda>x. \<not> (m_id x = eid \<and> m_userId x = uid)) pre"
        "findOneAndUpdate (\<lambda>x. m_id x = eid \<and> m_userId x = uid)
           (set_updateData now (sanitize body)) store = Some (pre @ d' # post, d')"
      using findOneAndUpdate_split[OF f[unfolded findOne_def]] d'_def by blast
    have p: "put_mood now uid eid body store = Inr (pre @ d' # post, response_of d')"
      using vr r s(3) by (simp add: put_mood_def)
    have m: "mood d' = with_default (mood d) (b_mood body)"
      by (simp add: d'_def set_updateData_def sanitize_def with_default_def split: option.splits)
    have i: "intensity d' = with_default (intensity d) (b_intensity body)"
      by (simp add: d'_def set_updateData_def sanitize_def with_default_def split: option.splits)
    have "valid_MoodLog d'" unfolding d'_def by (rule set_updateData_valid[OF v vr])
    then have ms: "moodScore d' = JNum (spec_moodScore (mood d') (intensity d'))"
      by (rule moodScore_valid)
    have rs: "r_moodScore (response_of d') = moodScore d'" by (simp add: response_of_def)
    from s(1,2) p m i ms rs d'_def show ?thesis by blast
  qed
  from a b c show ?thesis by blast
qed

text \<open>
  A log of mood happy and intensity 10 has the score 9. Updated to sad and 4, it is
  stored with the new values and the route reads back
  \<open>5404319552844596 / 2^52\<close>, the double that prints as \<open>1.2000000000000002\<close>.
\<close>

theorem moodScore_formula_witness:
  "moodScore (sample_mood ''e1'' ''happy'' 10 7) = JNum 9
   \<and> put_mood 50 ''u1'' ''e1'' (empty_body\<lparr>b_mood := Some ''sad'', b_intensity := Some 4\<rparr>)
         [sample_mood ''e1'' ''happy'' 10 7]
       = Inr ([(sample_mood ''e1'' ''happy'' 10 7)\<lparr>mood := ''sad'', intensity := 4, m_updatedAt := 50\<rparr>],
              response_of ((sample_mood ''e1'' ''happy'' 10 7)\<lparr>mood := ''sad'', intensity := 4, m_updatedAt := 50\<rparr>))
   \<and> r_moodScore (response_of ((sample_mood ''e1'' ''happy'' 10 7)\<lparr>mood := ''sad'', intensity := 4, m_updatedAt := 50\<rparr>))
       = JNum (5404319552844596 / 4503599627370496)"
proof -
  let ?d = "sample_mood ''e1'' ''happy'' 10 7"
  let ?b = "empty_body\<lparr>b_mood := Some ''sad'', b_intensity := Some 4\<rparr>"
  let ?d1 = "?d\<lparr>mood := ''sad'', intensity := 4, m_updatedAt := 50\<rparr>"
  have h1: "mood ?d \<in> set mood_enum" by code_simp
  have h2: "1 \<le> intensity ?d" by code_simp
  have h3: "intensity ?d \<le> 10" by code_simp
  have h4: "findOne (\<lambda>x. m_id x = ''e1'' \<and> m_userId x = ''u1'') [?d] = Some ?d" by code_simp
  have h5: "validationResult ?b" by code_simp
  have h6: "runValidators (sanitize ?b)" by code_simp
  have e1: "spec_moodScore (mood ?d) (intensity ?d) = 9" by code_simp
  have e2: "set_updateData 50 (sanitize ?b) ?d = ?d1" by code_simp
  have e3: "spec_moodScore (mood ?d1) (intensity ?d1) = 5404319552844596 / 4503599627370496"
    by code_simp
  from moodScore_formula[OF h1 h2 h3, of "''e1''" "''u1''" "[?d]" ?b 50] h4 h5 h6
  have a: "moodScore ?d = JNum (spec_moodScore (mood ?d) (intensity ?d))"
    and "\<exists>pre post d'. [?d] = pre @ ?d # post
           \<and> put_mood 50 ''u1'' ''e1'' ?b [?d] = Inr (pre @ d' # post, response_of d')
           \<and> d' = set_updateData 50 (sanitize ?b) ?d
           \<and> r_moodScore (response_of d') = moodScore d'
           \<and> moodScore d' = JNum (spec_moodScore (mood d') (intensity d'))"
    by blast+
  then obtain pre post where s: "[?d] = pre @ ?d # post"
    and p: "put_mood 50 ''u1'' ''e1'' ?b [?d] = Inr (pre @ ?d1 # post, response_of ?d1)"
    and r: "r_moodScore (response_of ?d1) = JNum (spec_moodScore (mood ?d1) (intensity ?d1))"
    unfolding e2 by auto
  from s have "pre = []" "post = []" by (simp_all add: Cons_eq_append_conv)
  with p have p': "put_mood 50 ''u1'' ''e1'' ?b [?d] = Inr ([?d1], response_of ?d1)" by simp
  from a p' r show ?thesis unfolding e1 e3 by blast
qed

section \<open>The fallback of the mood score\<close>

text \<open>
  A mood that is no key of the table and no property of \<open>Object.prototype\<close> takes the
  fallback base score 5.
\<close>

lemma moodScore_fallback:
  assumes "mood d \<notin> set mood_enum" and "mood d \<notin> set Object_prototype_keys"
  shows "moodScore d = JNum (fl (5 * fl (intensity d / 10)))"
proof -
  from assms(1) have "map_of moodScores (mood d) = None"
    by (simp add: moodScores_def mood_enum_def)
  with assms(2) show ?thesis
    by (simp add: moodScore_def get_property_def js_or_def)
qed

text \<open>
  For a name that every object inherits, the lookup finds a function: the fallback is
  not taken and the product is \<open>NaN\<close>.
\<close>

lemma moodScore_inherited:
  assumes "mood d \<in> set Object_prototype_keys"
  shows "moodScore d = JNaN"
proof -
  from assms have "mood d = ''constructor'' \<or> mood d = ''hasOwnProperty'' \<or> mood d = ''isPrototypeOf''
      \<or> mood d = ''propertyIsEnumerable'' \<or> mood d = ''toLocaleString'' \<or> mood d = ''toString''
      \<or> mood d = ''valueOf'' \<or> mood d = ''__proto__'' \<or> mood d = ''__defineGetter__''
      \<or> mood d = ''__defineSetter__'' \<or> mood d = ''__lookupGetter__'' \<or> mood d = ''__lookupSetter__''"
    by (simp add: Object_prototype_keys_def)
  then have "map_of moodScores (mood d) = None"
    by (elim disjE) (simp_all add: moodScores_def)
  with assms show ?thesis
    by (simp add: moodScore_def get_property_def js_or_def)
qed

text \<open>The score of a valid mood log is a number in \<open>(0, 9]\<close>.\<close>

lemma moodScore_in_range:
  assumes "valid_MoodLog d"
  shows "\<exists>s. moodScore d = JNum s \<and> 0 < s \<and> s \<le> 9"
proof -
  from assms have "mood d \<in> set mood_enum" "1 \<le> intensity d" "intensity d \<le> 10"
    by (simp_all add: valid_MoodLog_def)
  from spec_moodScore_bounds[OF this] moodScore_valid[OF assms] show ?thesis by blast
qed

text \<open>What the two routes store is valid, and what they answer is the getter's value on it.\<close>

lemma new_MoodLog_valid:
  assumes "post_validationResult body"
  shows "valid_MoodLog (new_MoodLog oid now uid (sanitize body))"
  using assms
  by (auto simp: valid_MoodLog_def post_validationResult_def new_MoodLog_def sanitize_def
      split: option.splits)

lemma post_mood_result:
  assumes "post_mood oid now uid body store = Inr (store', resp)"
  shows "post_validationResult body \<and> store' = store @ [new_MoodLog oid now uid (sanitize body)]
     \<and> c_moodScore resp = moodScore (new_MoodLog oid now uid (sanitize body))"
  using assms by (auto simp: post_mood_def Let_def split: if_splits)

lemma put_mood_result:
  assumes "put_mood now uid eid body store = Inr (store', resp)"
  shows "validationResult body
     \<and> (\<exists>pre d post. store = pre @ d # post
           \<and> store' = pre @ set_updateData now (sanitize body) d # post
           \<and> resp = response_of (set_updateData now (sanitize body) d))"
proof -
  from assms have v: "validationResult body" and r: "runValidators (sanitize body)"
    by (auto simp: put_mood_def split: if_splits)
  let ?p = "\<lambda>x. m_id x = eid \<and> m_userId x = uid"
  from assms v r obtain d' where u: "findOneAndUpdate ?p (set_updateData now (sanitize body)) store = Some (store', d')"
    and resp: "resp = response_of d'"
    by (auto simp: put_mood_def split: option.splits)
  have "List.find ?p store \<noteq> None"
  proof
    assume "List.find ?p store = None"
    then have "findOneAndUpdate ?p (set_updateData now (sanitize body)) store = None"
      by (induction store) (auto split: if_splits)
    with u show False by simp
  qed
  then obtain d where "List.find ?p store = Some d" by blast
  from findOneAndUpdate_split[OF this, of "set_updateData now (sanitize body)"] u resp v
  show ?thesis by auto
qed

text \<open>
  Claim C10, as the code has it. The getter never fails on a mood string. For a
  mood outside the ten-tag table that is not the name of a property inherited from
  \<open>Object.prototype\<close> it evaluates to \<open>5 * (intensity / 10)\<close>, the neutral base score
  as fallback; for an inherited name it evaluates to \<open>NaN\<close>. For a mood of the
  enumeration the lookup is truthy, the fallback is not taken, and with an intensity
  in \<open>[1, 10]\<close> the score lies in \<open>(0, 9]\<close>. The routes keep that precondition: a
  payload whose mood is outside the enumeration is refused with status 400 by
  \<open>POST\<close> and by \<open>PUT\<close>, every mood log that a route stores is valid, a collection of
  valid logs stays one, and the score that a route answers is a number in \<open>(0, 9]\<close>,
  never \<open>NaN\<close>.
\<close>

theorem moodScore_total:
  "(mood d \<notin> set mood_enum \<and> mood d \<notin> set Object_prototype_keys
      \<longrightarrow> moodScore d = JNum (fl (5 * fl (intensity d / 10))))
   \<and> (mood d \<in> set Object_prototype_keys \<longrightarrow> moodScore d = JNaN)
   \<and> (mood d \<in> set mood_enum \<longrightarrow>
         truthy (get_property moodScores (mood d))
         \<and> js_or (get_property moodScores (mood d)) (JNum 5) = JNum (spec_baseScore (mood d)))
   \<and> (valid_MoodLog d \<longrightarrow> (\<exists>s. moodScore d = JNum s \<and> 0 < s \<and> s \<le> 9))
   \<and> (post_mood oid now uid body store = Inr (store', resp) \<longrightarrow>
         (\<exists>new. store' = store @ [new] \<and> valid_MoodLog new \<and> c_moodScore resp = moodScore new)
         \<and> (\<exists>s. c_moodScore resp = JNum s \<and> 0 < s \<and> s \<le> 9)
         \<and> (list_all valid_MoodLog store \<longrightarrow> list_all valid_MoodLog store'))
   \<and> (list_all valid_MoodLog store \<and> put_mood now uid eid body store = Inr (store2, resp2) \<longrightarrow>
         list_all valid_MoodLog store2 \<and> (\<exists>s. r_moodScore resp2 = JNum s \<and> 0 < s \<and> s \<le> 9))
   \<and> (b_mood body = Some m \<and> m \<notin> set mood_enum \<longrightarrow>
         post_mood oid now uid body store = Inl Bad_Request
         \<and> put_mood now uid eid body store = Inl Bad_Request)"
proof -
  have a: "moodScore d = JNum (fl (5 * fl (intensity d / 10)))"
    if "mood d \<notin> set mood_enum \<and> mood d \<notin> set Object_prototype_keys"
    using that by (simp add: moodScore_fallback)
  have b: "moodScore d = JNaN" if "mood d \<in> set Object_prototype_keys"
    using that by (rule moodScore_inherited)
  have c: "truthy (get_property moodScores (mood d))
      \<and> js_or (get_property moodScores (mood d)) (JNum 5) = JNum (spec_baseScore (mood d))"
    if "mood d \<in> set mood_enum"
  proof -
    from table_lookup[OF that] have "get_property moodScores (mood d) = JNum (spec_baseScore (mood d))"
      and "spec_baseScore (mood d) \<noteq> 0" by auto
    then show ?thesis by (simp add: js_or_def)
  qed
  have e: "(\<exists>new. store' = store @ [new] \<and> valid_MoodLog new \<and> c_moodScore resp = moodScore new)
         \<and> (\<exists>s. c_moodScore resp = JNum s \<and> 0 < s \<and> s \<le> 9)
         \<and> (list_all valid_MoodLog store \<longrightarrow> list_all valid_MoodLog store')"
    if "post_mood oid now uid body store = Inr (store', resp)"
  proof -
    let ?n = "new_MoodLog oid now uid (sanitize body)"
    from post_mood_result[OF that] have v: "post_validationResult body" and s: "store' = store @ [?n]"
      and r: "c_moodScore resp = moodScore ?n" by simp_all
    have n: "valid_MoodLog ?n" by (rule new_MoodLog_valid[OF v])
    from moodScore_in_range[OF n] r have "\<exists>s. c_moodScore resp = JNum s \<and> 0 < s \<and> s \<le> 9" by simp
    with s n r show ?thesis by auto
  qed
  have f: "list_all valid_MoodLog store2 \<and> (\<exists>s. r_moodScore resp2 = JNum s \<and> 0 < s \<and> s \<le> 9)"
    if "list_all valid_MoodLog store \<and> put_mood now uid eid body store = Inr (store2, resp2)"
  proof -
    from that have all: "list_all valid_MoodLog store" and p: "put_mood now uid eid body store = Inr (store2, resp2)"
      by simp_all
    from put_mood_result[OF p] obtain pre x post where v: "validationResult body"
      and s: "store = pre @ x # post" and s2: "store2 = pre @ set_updateData now (sanitize body) x # post"
      and r: "resp2 = response_of (set_updateData now (sanitize body) x)" by blast
    from all s have "valid_MoodLog x" by simp
    then have n: "valid_MoodLog (set_updateData now (sanitize body) x)"
      by (rule set_updateData_valid[OF _ v])
    from all s s2 n have "list_all valid_MoodLog store2" by simp
    moreover from moodScore_in_range[OF n] r
    have "\<exists>s. r_moodScore resp2 = JNum s \<and> 0 < s \<and> s \<le> 9" by (simp add: response_of_def)
    ultimately show ?thesis by blast
  qed
  have g: "post_mood oid now uid body store = Inl Bad_Request
         \<and> put_mood now uid eid body store = Inl Bad_Request"
    if "b_mood body = Some m \<and> m \<notin> set mood_enum"
    using that by (simp add: post_mood_def put_mood_def post_validationResult_def validationResult_def isIn_def)
  from a b c moodScore_in_range e f g show ?thesis by blast
qed

text \<open>
  The mood \<open>bored\<close> takes the fallback, \<open>toString\<close> gives \<open>NaN\<close>, \<open>anxious\<close> with
  intensity 7 is in range; a post of (calm, 3) and an update of the intensity to 9
  keep the three sample logs valid and answer a score in range; the mood
  \<open>constructor\<close> is refused by both routes.
\<close>

theorem moodScore_total_witness:
  "moodScore (sample_mood ''e1'' ''bored'' 5 0) = JNum (5 / 2)
   \<and> moodScore (sample_mood ''e1'' ''toString'' 5 0) = JNaN
   \<and> (\<exists>s. moodScore (sample_mood ''e1'' ''anxious'' 7 0) = JNum s \<and> 0 < s \<and> s \<le> 9)
   \<and> post_mood ''e9'' 50 ''u1'' (empty_body\<lparr>b_mood := Some ''calm'', b_intensity := Some 3\<rparr>) three_moods
       = Inr (three_moods @ [new_MoodLog ''e9'' 50 ''u1'' (empty_body\<lparr>b_mood := Some ''calm'', b_intensity := Some 3\<rparr>)],
              \<lparr>c_id = ''e9'', c_mood = ''calm'', c_intensity = 3, c_context = Some ''general'',
               c_moodScore = JNum (fl (6 * fl (3 / 10))), c_createdAt = 50\<rparr>)
   \<and> list_all valid_MoodLog
         (three_moods @ [new_MoodLog ''e9'' 50 ''u1'' (empty_body\<lparr>b_mood := Some ''calm'', b_intensity := Some 3\<rparr>)])
   \<and> (\<exists>s. JNum (fl (6 * fl (3 / 10))) = JNum s \<and> 0 < s \<and> s \<le> 9)
   \<and> put_mood 50 ''u1'' ''e1'' (empty_body\<lparr>b_intensity := Some 9\<rparr>) three_moods
       = Inr ([(sample_mood ''e1'' ''sad'' 5 90)\<lparr>intensity := 9, m_updatedAt := 50\<rparr>,
               sample_mood ''e2'' ''happy'' 5 91, sample_mood ''e3'' ''happy'' 5 92],
              response_of ((sample_mood ''e1'' ''sad'' 5 90)\<lparr>intensity := 9, m_updatedAt := 50\<rparr>))
   \<and> list_all valid_MoodLog
         [(sample_mood ''e1'' ''sad'' 5 90)\<lparr>intensity := 9, m_updatedAt := 50\<rparr>,
          sample_mood ''e2'' ''happy'' 5 91, sample_mood ''e3'' ''happy'' 5 92]
   \<and> (\<exists>s. r_moodScore (response_of ((sample_mood ''e1'' ''sad'' 5 90)\<lparr>intensity := 9, m_updatedAt := 50\<rparr>))
             = JNum s \<and> 0 < s \<and> s \<le> 9)
   \<and> post_mood ''e9'' 50 ''u1'' (empty_body\<lparr>b_mood := Some ''constructor'', b_intensity := Some 3\<rparr>)
         three_moods = Inl Bad_Request
   \<and> put_mood 50 ''u1'' ''e1'' (empty_body\<lparr>b_mood := Some ''constructor'', b_intensity := Some 3\<rparr>)
         three_moods = Inl Bad_Request"
proof -
  let ?pb = "empty_body\<lparr>b_mood := Some ''calm'', b_intensity := Some 3\<rparr>"
  let ?ub = "empty_body\<lparr>b_intensity := Some 9\<rparr>"
  let ?cb = "empty_body\<lparr>b_mood := Some ''constructor'', b_intensity := Some 3\<rparr>"
  let ?n = "new_MoodLog ''e9'' 50 ''u1'' ?pb"
  let ?r = "\<lparr>c_id = ''e9'', c_mood = ''calm'', c_intensity = 3, c_context = Some ''general'',
            c_moodScore = JNum (fl (6 * fl (3 / 10))), c_createdAt = 50\<rparr>"
  let ?u = "(sample_mood ''e1'' ''sad'' 5 90)\<lparr>intensity := 9, m_updatedAt := 50\<rparr>"
  let ?s2 = "[?u, sample_mood ''e2'' ''happy'' 5 91, sample_mood ''e3'' ''happy'' 5 92]"
  have h1: "mood (sample_mood ''e1'' ''bored'' 5 0) \<notin> set mood_enum
      \<and> mood (sample_mood ''e1'' ''bored'' 5 0) \<notin> set Object_prototype_keys" by code_simp
  have v1: "fl (5 * fl (intensity (sample_mood ''e1'' ''bored'' 5 0) / 10)) = 5 / 2" by code_simp
  have h2: "mood (sample_mood ''e1'' ''toString'' 5 0) \<in> set Object_prototype_keys" by code_simp
  have h3: "valid_MoodLog (sample_mood ''e1'' ''anxious'' 7 0)" by code_simp
  have h4: "list_all valid_MoodLog three_moods" by code_simp
  have h5: "post_mood ''e9'' 50 ''u1'' ?pb three_moods = Inr (three_moods @ [?n], ?r)" by code_simp
  have v5: "c_moodScore ?r = JNum (fl (6 * fl (3 / 10)))" by (rule created_response.select_convs)
  have h6: "put_mood 50 ''u1'' ''e1'' ?ub three_moods = Inr (?s2, response_of ?u)" by code_simp
  have h7: "b_mood ?cb = Some ''constructor'' \<and> ''constructor'' \<notin> set mood_enum" by code_simp
  note A = moodScore_total[where d = "sample_mood ''e1'' ''bored'' 5 0"]
  note B = moodScore_total[where d = "sample_mood ''e1'' ''toString'' 5 0"]
  note C = moodScore_total[where d = "sample_mood ''e1'' ''anxious'' 7 0"]
  note D = moodScore_total[where oid = "''e9''" and now = 50 and uid = "''u1''" and eid = "''e1''"
      and body = ?pb and store = three_moods and store' = "three_moods @ [?n]" and resp = ?r]
  note E = moodScore_total[where now = 50 and uid = "''u1''" and eid = "''e1''" and body = ?ub
      and store = three_moods and ?store2.0 = ?s2 and ?resp2.0 = "response_of ?u"]
  note F = moodScore_total[where oid = "''e9''" and now = 50 and uid = "''u1''" and eid = "''e1''"
      and body = ?cb and store = three_moods and m = "''constructor''"]
  have t1: "moodScore (sample_mood ''e1'' ''bored'' 5 0) = JNum (5 / 2)"
    using A[THEN conjunct1, THEN mp, OF h1] unfolding v1 .
  have t2: "moodScore (sample_mood ''e1'' ''toString'' 5 0) = JNaN"
    by (rule B[THEN conjunct2, THEN conjunct1, THEN mp, OF h2])
  have t3: "\<exists>s. moodScore (sample_mood ''e1'' ''anxious'' 7 0) = JNum s \<and> 0 < s \<and> s \<le> 9"
    by (rule C[THEN conjunct2, THEN conjunct2, THEN conjunct2, THEN conjunct1, THEN mp, OF h3])
  note D5 = D[THEN conjunct2, THEN conjunct2, THEN conjunct2, THEN conjunct2, THEN conjunct1,
      THEN mp, OF h5]
  have t4: "list_all valid_MoodLog (three_moods @ [?n])"
    by (rule D5[THEN conjunct2, THEN conjunct2, THEN mp, OF h4])
  have t5: "\<exists>s. JNum (fl (6 * fl (3 / 10))) = JNum s \<and> 0 < s \<and> s \<le> 9"
    using D5[THEN conjunct2, THEN conjunct1] unfolding v5 .
  note E6 = E[THEN conjunct2, THEN conjunct2, THEN conjunct2, THEN conjunct2, THEN conjunct2,
      THEN conjunct1, THEN mp, OF conjI[OF h4 h6]]
  have t6: "list_all valid_MoodLog ?s2" by (rule E6[THEN conjunct1])
  have t7: "\<exists>s. r_moodScore (response_of ?u) = JNum s \<and> 0 < s \<and> s \<le> 9"
    by (rule E6[THEN conjunct2])
  note F7 = F[THEN conjunct2, THEN conjunct2, THEN conjunct2, THEN conjunct2, THEN conjunct2,
      THEN conjunct2, THEN mp, OF h7]
  show ?thesis
    by (rule conjI[OF t1 conjI[OF t2 conjI[OF t3 conjI[OF h5 conjI[OF t4 conjI[OF t5
          conjI[OF h6 conjI[OF t6 conjI[OF t7 F7]]]]]]]]])
qed

text \<open>
  Claim C10 as stated fails for the getter alone: the mood \<open>constructor\<close> is outside
  the table, yet the score of a log with that mood and intensity 5 is \<open>NaN\<close>, not
  \<open>5 * (5 / 10) = 2.5\<close>.
\<close>

theorem moodScore_constructor_counterexample:
  "''constructor'' \<notin> set mood_enum
   \<and> moodScore (sample_mood ''e1'' ''constructor'' 5 0) = JNaN
   \<and> fl (5 * fl (5 / 10)) = 5 / 2"
  by code_simp

section \<open>Marking an insight as read or acted on\<close>

text \<open>A second update of the same document acts on what the first one left.\<close>

lemma findOneAndUpdate_again:
  assumes "findOneAndUpdate p f ds = Some (ds', r)" and "\<And>x. p x \<Longrightarrow> p (f x)"
  shows "findOneAndUpdate p g ds' = findOneAndUpdate p (\<lambda>x. g (f x)) ds"
  using assms(1)
proof (induction ds arbitrary: ds' r)
  case Nil
  then show ?case by simp
next
  case (Cons d ds)
  show ?case
  proof (cases "p d")
    case True
    with Cons.prems have "ds' = f d # ds" by auto
    with True assms(2) show ?thesis by simp
  next
    case False
    with Cons.prems obtain es where e: "findOneAndUpdate p f ds = Some (es, r)" and d: "ds' = d # es"
      by (auto split: option.splits)
    from Cons.IH[OF e] False d show ?thesis by simp
  qed
qed

text \<open>After the update, the query finds the updated document.\<close>

lemma find_after_update:
  assumes "List.find p ds = Some d" and "p (f d)" and "findOneAndUpdate p f ds = Some (ds', r)"
  shows "List.find p ds' = Some (f d)"
  using assms
proof (induction ds arbitrary: ds')
  case Nil
  then show ?case by simp
next
  case (Cons a ds)
  show ?case
  proof (cases "p a")
    case True
    with Cons.prems show ?thesis by auto
  next
    case False
    with Cons.prems obtain es where e: "findOneAndUpdate p f ds = Some (es, r)" and d: "ds' = a # es"
      by (auto split: option.splits)
    from Cons.prems False have "List.find p ds = Some d" by simp
    from Cons.IH[OF this Cons.prems(2) e] False d show ?thesis by simp
  qed
qed

text \<open>
  Two updates \<open>f\<close> then \<open>g\<close> of the insight that a user addresses by id, where \<open>g\<close>
  writes over everything that \<open>f\<close> wrote: the outcome is that of \<open>g\<close> alone.
\<close>

lemma update_twice:
  fixes f g :: "Insight \<Rightarrow> Insight"
  assumes found: "findOne (\<lambda>x. i_id x = iid \<and> i_userId x = uid) store = Some d"
    and keep_f: "\<And>x. i_id (f x) = i_id x \<and> i_userId (f x) = i_userId x"
    and keep_g: "\<And>x. i_id (g x) = i_id x \<and> i_userId (g x) = i_userId x"
    and absorb: "\<And>x. g (f x) = g x"
  shows "\<exists>s1 s2. findOneAndUpdate (\<lambda>x. i_id x = iid \<and> i_userId x = uid) f store = Some (s1, f d)
     \<and> findOneAndUpdate (\<lambda>x. i_id x = iid \<and> i_userId x = uid) g s1 = Some (s2, g d)
     \<and> findOneAndUpdate (\<lambda>x. i_id x = iid \<and> i_userId x = uid) g store = Some (s2, g d)
     \<and> findOne (\<lambda>x. i_id x = iid \<and> i_userId x = uid) s1 = Some (f d)
     \<and> findOne (\<lambda>x. i_id x = iid \<and> i_userId x = uid) s2 = Some (g d)"
proof -
  let ?p = "\<lambda>x. i_id x = iid \<and> i_userId x = uid"
  from found have fd: "List.find ?p store = Some d" by (simp add: findOne_def)
  then have pd: "?p d" by (auto simp: find_Some_iff)
  obtain s1 where s1: "findOneAndUpdate ?p f store = Some (s1, f d)"
    using findOneAndUpdate_found[OF fd] by blast
  obtain s2 where s2: "findOneAndUpdate ?p g store = Some (s2, g d)"
    using findOneAndUpdate_found[OF fd] by blast
  have "findOneAndUpdate ?p g s1 = findOneAndUpdate ?p (\<lambda>x. g (f x)) store"
    by (rule findOneAndUpdate_again[OF s1]) (simp add: keep_f)
  then have s12: "findOneAndUpdate ?p g s1 = Some (s2, g d)" using s2 by (simp add: absorb)
  have f1: "List.find ?p s1 = Some (f d)"
    by (rule find_after_update[OF fd _ s1]) (use pd keep_f in simp)
  have f2: "List.find ?p s2 = Some (g d)"
    by (rule find_after_update[OF fd _ s2]) (use pd keep_g in simp)
  from s1 s2 s12 f1 f2 show ?thesis by (simp add: findOne_def)
qed

text \<open>
  Claim C4, as the code has it. For an insight that exists for the user, marking it
  read (or marking its action taken) succeeds, and doing so again leaves exactly the
  state that the later call alone would have left: \<open>isRead\<close> (or \<open>actionTaken\<close>) is
  true and every other field is as before, except that \<open>updatedAt\<close>, and for the
  action also \<open>actionTakenAt\<close>, hold the time of the latest call. \<open>markActionTaken\<close>
  sets \<open>actionTaken\<close> and stamps \<open>actionTakenAt\<close> with the time of the call. With equal
  clock readings (\<open>t1 = t2\<close>) the repeated call changes nothing.
\<close>

theorem mark_twice:
  assumes "get_insight uid iid store = Inr d"
  shows "\<exists>s1 s2 a1 a2.
      put_read t1 uid iid store = Inr s1 \<and> put_read t2 uid iid s1 = Inr s2
    \<and> put_read t2 uid iid store = Inr s2
    \<and> get_insight uid iid s1 = Inr (d\<lparr>isRead := True, i_updatedAt := t1\<rparr>)
    \<and> get_insight uid iid s2 = Inr (d\<lparr>isRead := True, i_updatedAt := t2\<rparr>)
    \<and> put_action_taken t1 uid iid store = Inr a1 \<and> put_action_taken t2 uid iid a1 = Inr a2
    \<and> put_action_taken t2 uid iid store = Inr a2
    \<and> get_insight uid iid a1 = Inr (d\<lparr>actionTaken := True, actionTakenAt := Some t1, i_updatedAt := t1\<rparr>)
    \<and> get_insight uid iid a2 = Inr (d\<lparr>actionTaken := True, actionTakenAt := Some t2, i_updatedAt := t2\<rparr>)"
proof -
  from assms have found: "findOne (\<lambda>x. i_id x = iid \<and> i_userId x = uid) store = Some d"
    by (simp add: get_insight_def split: option.splits)
  obtain s1 s2 where r:
    "findOneAndUpdate (\<lambda>x. i_id x = iid \<and> i_userId x = uid) (\<lambda>d. d\<lparr>isRead := True, i_updatedAt := t1\<rparr>) store
       = Some (s1, d\<lparr>isRead := True, i_updatedAt := t1\<rparr>)"
    "findOneAndUpdate (\<lambda>x. i_id x = iid \<and> i_userId x = uid) (\<lambda>d. d\<lparr>isRead := True, i_updatedAt := t2\<rparr>) s1
       = Some (s2, d\<lparr>isRead := True, i_updatedAt := t2\<rparr>)"
    "findOneAndUpdate (\<lambda>x. i_id x = iid \<and> i_userId x = uid) (\<lambda>d. d\<lparr>isRead := True, i_updatedAt := t2\<rparr>) store
       = Some (s2, d\<lparr>isRead := True, i_updatedAt := t2\<rparr>)"
    "findOne (\<lambda>x. i_id x = iid \<and> i_userId x = uid) s1 = Some (d\<lparr>isRead := True, i_updatedAt := t1\<rparr>)"
    "findOne (\<lambda>x. i_id x = iid \<and> i_userId x = uid) s2 = Some (d\<lparr>isRead := True, i_updatedAt := t2\<rparr>)"
    using update_twice[OF found, of "\<lambda>d. d\<lparr>isRead := True, i_updatedAt := t1\<rparr>"
        "\<lambda>d. d\<lparr>isRead := True, i_updatedAt := t2\<rparr>"] by auto
  obtain a1 a2 where a:
    "findOneAndUpdate (\<lambda>x. i_id x = iid \<and> i_userId x = uid)
       (\<lambda>d. d\<lparr>actionTaken := True, actionTakenAt := Some t1, i_updatedAt := t1\<rparr>) store
       = Some (a1, d\<lparr>actionTaken := True, actionTakenAt := Some t1, i_updatedAt := t1\<rparr>)"
    "findOneAndUpdate (\<lambda>x. i_id x = iid \<and> i_userId x = uid)
       (\<lambda>d. d\<lparr>actionTaken := True, actionTakenAt := Some t2, i_updatedAt := t2\<rparr>) a1
       = Some (a2, d\<lparr>actionTaken := True, actionTakenAt := Some t2, i_updatedAt := t2\<rparr>)"
    "findOneAndUpdate (\<lambda>x. i_id x = iid \<and> i_userId x = uid)
       (\<lambda>d. d\<lparr>actionTaken := True, actionTakenAt := Some t2, i_updatedAt := t2\<rparr>) store
       = Some (a2, d\<lparr>actionTaken := True, actionTakenAt := Some t2, i_updatedAt := t2\<rparr>)"
    "findOne (\<lambda>x. i_id x = iid \<and> i_userId x = uid) a1
       = Some (d\<lparr>actionTaken := True, actionTakenAt := Some t1, i_updatedAt := t1\<rparr>)"
    "findOne (\<lambda>x. i_id x = iid \<and> i_userId x = uid) a2
       = Some (d\<lparr>actionTaken := True, actionTakenAt := Some t2, i_updatedAt := t2\<rparr>)"
    using update_twice[OF found, of "\<lambda>d. d\<lparr>actionTaken := True, actionTakenAt := Some t1, i_updatedAt := t1\<rparr>"
        "\<lambda>d. d\<lparr>actionTaken := True, actionTakenAt := Some t2, i_updatedAt := t2\<rparr>"] by auto
  show ?thesis
    apply (rule exI[of _ s1], rule exI[of _ s2], rule exI[of _ a1], rule exI[of _ a2])
    using r a by (simp add: put_read_def put_action_taken_def get_insight_def)
qed

text \<open>The insight \<open>a\<close> of the four samples, marked at times 100 and 200.\<close>

theorem mark_twice_witness:
  "get_insight ''u1'' ''a'' four_insights = Inr (sample_insight ''a'' ''low'' (9 / 10) 1)
   \<and> (\<exists>s1 s2 a1 a2.
      put_read 100 ''u1'' ''a'' four_insights = Inr s1 \<and> put_read 200 ''u1'' ''a'' s1 = Inr s2
    \<and> put_read 200 ''u1'' ''a'' four_insights = Inr s2
    \<and> get_insight ''u1'' ''a'' s1 = Inr ((sample_insight ''a'' ''low'' (9 / 10) 1)\<lparr>isRead := True, i_updatedAt := 100\<rparr>)
    \<and> get_insight ''u1'' ''a'' s2 = Inr ((sample_insight ''a'' ''low'' (9 / 10) 1)\<lparr>isRead := True, i_updatedAt := 200\<rparr>)
    \<and> put_action_taken 100 ''u1'' ''a'' four_insights = Inr a1 \<and> put_action_taken 200 ''u1'' ''a'' a1 = Inr a2
    \<and> put_action_taken 200 ''u1'' ''a'' four_insights = Inr a2
    \<and> get_insight ''u1'' ''a'' a1 = Inr ((sample_insight ''a'' ''low'' (9 / 10) 1)\<lparr>actionTaken := True, actionTakenAt := Some 100, i_updatedAt := 100\<rparr>)
    \<and> get_insight ''u1'' ''a'' a2 = Inr ((sample_insight ''a'' ''low'' (9 / 10) 1)\<lparr>actionTaken := True, actionTakenAt := Some 200, i_updatedAt := 200\<rparr>))"
proof -
  have h: "get_insight ''u1'' ''a'' four_insights = Inr (sample_insight ''a'' ''low'' (9 / 10) 1)"
    by code_simp
  from h mark_twice[OF h, of 100 200] show ?thesis by blast
qed

text \<open>
  Claim C4 as stated fails for \<open>actionTakenAt\<close>: a second call at a later time stamps
  it again, so the state after two calls differs from the state after one.
\<close>

theorem mark_action_taken_twice_counterexample:
  "put_action_taken 100 ''u1'' ''a'' [sample_insight ''a'' ''low'' 1 1]
     = Inr [(sample_insight ''a'' ''low'' 1 1)\<lparr>actionTaken := True, actionTakenAt := Some 100, i_updatedAt := 100\<rparr>]
   \<and> put_action_taken 200 ''u1'' ''a''
        [(sample_insight ''a'' ''low'' 1 1)\<lparr>actionTaken := True, actionTakenAt := Some 100, i_updatedAt := 100\<rparr>]
     = Inr [(sample_insight ''a'' ''low'' 1 1)\<lparr>actionTaken := True, actionTakenAt := Some 200, i_updatedAt := 200\<rparr>]
   \<and> actionTakenAt ((sample_insight ''a'' ''low'' 1 1)\<lparr>actionTaken := True, actionTakenAt := Some 200, i_updatedAt := 200\<rparr>)
     \<noteq> actionTakenAt ((sample_insight ''a'' ''low'' 1 1)\<lparr>actionTaken := True, actionTakenAt := Some 100, i_updatedAt := 100\<rparr>)"
  by code_simp

section \<open>Ingestion of an insight\<close>

text \<open>The submissions that pass every validator of the schema.\<close>

lemma validate_ok_iff:
  "validate x = [] \<longleftrightarrow>
     (\<exists>u. n_userId x = Some u \<and> u \<noteq> [])
   \<and> (\<exists>t. n_type x = Some t \<and> t \<in> set type_enum)
   \<and> (\<exists>s. n_title x = Some s \<and> s \<noteq> [] \<and> length s \<le> 200)
   \<and> (\<exists>s. n_description x = Some s \<and> s \<noteq> [] \<and> length s \<le> 1000)
   \<and> (\<exists>c. n_confidence x = Some c \<and> 0 \<le> c \<and> c \<le> 1)
   \<and> (n_priority x = None \<or> (\<exists>p. n_priority x = Some p \<and> p \<in> set priority_enum))
   \<and> (\<exists>c. n_category x = Some c \<and> c \<in> set category_enum)
   \<and> list_all (\<lambda>v. v = None \<or> (\<exists>t. v = Some t \<and> t \<in> set visualization_enum)) (n_visualizations x)
   \<and> (n_source x = None \<or> (\<exists>s. n_source x = Some s \<and> s \<in> set source_enum))"
proof -
  have e: "enum_ok vs v = (v = None \<or> (\<exists>t. v = Some t \<and> t \<in> set vs))" for vs v
    by (cases v) (simp_all add: enum_ok_def)
  have t: "required_string v \<and> enum_ok vs v \<longleftrightarrow> (\<exists>t. v = Some t \<and> t \<noteq> [] \<and> t \<in> set vs)" for vs v
    by (cases v) (auto simp: enum_ok_def required_string_def)
  have l: "required_string v \<and> maxlength_ok n v \<longleftrightarrow> (\<exists>s. v = Some s \<and> s \<noteq> [] \<and> length s \<le> n)" for n v
    by (cases v) (auto simp: maxlength_ok_def required_string_def)
  have c: "required_number v \<and> min_ok 0 v \<and> max_ok 1 v \<longleftrightarrow> (\<exists>c. v = Some c \<and> 0 \<le> c \<and> c \<le> 1)" for v
    by (cases v) (auto simp: required_number_def min_ok_def max_ok_def)
  have u: "required_string v \<longleftrightarrow> (\<exists>u. v = Some u \<and> u \<noteq> [])" for v
    by (cases v) (auto simp: required_string_def)
  have p: "enum_ok priority_enum (Some (with_default ''medium'' v))
      \<longleftrightarrow> (v = None \<or> (\<exists>p. v = Some p \<and> p \<in> set priority_enum))" for v
    by (cases v) (auto simp: enum_ok_def with_default_def priority_enum_def)
  have s: "enum_ok source_enum (Some (with_default ''ml_analysis'' v))
      \<longleftrightarrow> (v = None \<or> (\<exists>p. v = Some p \<and> p \<in> set source_enum))" for v
    by (cases v) (auto simp: enum_ok_def with_default_def source_enum_def)
  have n1: "[] \<notin> set type_enum" by (simp add: type_enum_def)
  have n2: "[] \<notin> set category_enum" by (simp add: category_enum_def)
  have ty: "required_string v \<and> enum_ok type_enum v \<longleftrightarrow> (\<exists>t. v = Some t \<and> t \<in> set type_enum)" for v
    unfolding t using n1 by metis
  have ca: "enum_ok category_enum v \<and> required_string v \<longleftrightarrow> (\<exists>t. v = Some t \<and> t \<in> set category_enum)" for v
    using t[of v category_enum] n2 by metis
  have v: "list_all (enum_ok visualization_enum) vs
     = list_all (\<lambda>v. v = None \<or> (\<exists>t. v = Some t \<and> t \<in> set visualization_enum)) vs" for vs
    by (induction vs) (simp_all add: e)
  have ch: "check path ok = [] \<longleftrightarrow> ok" for path ok
    by (simp add: check_def)
  have "validate x = [] \<longleftrightarrow>
      required_string (n_userId x)
    \<and> (required_string (n_type x) \<and> enum_ok type_enum (n_type x))
    \<and> (required_string (n_title x) \<and> maxlength_ok 200 (n_title x))
    \<and> (required_string (n_description x) \<and> maxlength_ok 1000 (n_description x))
    \<and> (required_number (n_confidence x) \<and> min_ok 0 (n_confidence x) \<and> max_ok 1 (n_confidence x))
    \<and> enum_ok priority_enum (Some (with_default ''medium'' (n_priority x)))
    \<and> (enum_ok category_enum (n_category x) \<and> required_string (n_category x))
    \<and> list_all (enum_ok visualization_enum) (n_visualizations x)
    \<and> enum_ok source_enum (Some (with_default ''ml_analysis'' (n_source x)))"
    unfolding validate_def by (simp only: append_is_Nil_conv ch)
  note step = this[unfolded ty l c p ca v s]
  show ?thesis using step[unfolded u] .
qed

text \<open>
  Claim C6, as the code has it. Ingestion fails with a validation error exactly when
  a validator of the schema fails: \<open>userId\<close>, \<open>type\<close>, \<open>title\<close>, \<open>description\<close>,
  \<open>confidence\<close> or \<open>category\<close> is absent (or an empty string), the title is longer than
  200 or the description longer than 1000 characters, the confidence is outside
  \<open>[0, 1]\<close>, or the type, the category, the priority, the source or the type of a
  visualization is outside its enumeration (priority and source may be absent). An
  insight that was ingested has a confidence in \<open>[0, 1]\<close> and its type, category and
  priority in their enumerations, and is stored with the \<open>expiresAt\<close> it came with.
  \<open>expiresAt\<close> has no validator: changing it never changes whether ingestion fails.
\<close>

theorem ingest_validation:
  "((\<exists>errs. ingest oid now x store = Inl (ValidationError errs)) \<longleftrightarrow>
      \<not> ((\<exists>u. n_userId x = Some u \<and> u \<noteq> [])
       \<and> (\<exists>t. n_type x = Some t \<and> t \<in> set type_enum)
       \<and> (\<exists>s. n_title x = Some s \<and> s \<noteq> [] \<and> length s \<le> 200)
       \<and> (\<exists>s. n_description x = Some s \<and> s \<noteq> [] \<and> length s \<le> 1000)
       \<and> (\<exists>c. n_confidence x = Some c \<and> 0 \<le> c \<and> c \<le> 1)
       \<and> (n_priority x = None \<or> (\<exists>p. n_priority x = Some p \<and> p \<in> set priority_enum))
       \<and> (\<exists>c. n_category x = Some c \<and> c \<in> set category_enum)
       \<and> list_all (\<lambda>v. v = None \<or> (\<exists>t. v = Some t \<and> t \<in> set visualization_enum)) (n_visualizations x)
       \<and> (n_source x = None \<or> (\<exists>s. n_source x = Some s \<and> s \<in> set source_enum))))
   \<and> (\<forall>store' d. ingest oid now x store = Inr (store', d) \<longrightarrow>
         0 \<le> confidence d \<and> confidence d \<le> 1 \<and> i_type d \<in> set type_enum
         \<and> category d \<in> set category_enum \<and> priority d \<in> set priority_enum
         \<and> expiresAt d = n_expiresAt x \<and> store' = store @ [d])
   \<and> ((\<exists>errs. ingest oid now (x\<lparr>n_expiresAt := e\<rparr>) store = Inl (ValidationError errs))
        \<longleftrightarrow> (\<exists>errs. ingest oid now x store = Inl (ValidationError errs)))"
proof -
  have a: "(\<exists>errs. ingest oid now y store = Inl (ValidationError errs)) \<longleftrightarrow> validate y \<noteq> []" for y
    by (auto simp: ingest_def)
  have b: "0 \<le> confidence d \<and> confidence d \<le> 1 \<and> i_type d \<in> set type_enum
         \<and> category d \<in> set category_enum \<and> priority d \<in> set priority_enum
         \<and> expiresAt d = n_expiresAt x \<and> store' = store @ [d]"
    if "ingest oid now x store = Inr (store', d)" for store' d
  proof -
    from that have ok: "validate x = []" and d: "d = new_Insight oid now x" and s: "store' = store @ [d]"
      by (auto simp: ingest_def split: if_splits)
    from ok[unfolded validate_ok_iff] d s show ?thesis
      by (auto simp: new_Insight_def with_default_def priority_enum_def)
  qed
  have c: "validate (x\<lparr>n_expiresAt := e\<rparr>) = validate x"
    by (simp add: validate_def)
  show ?thesis unfolding a c using b validate_ok_iff[of x] by blast
qed

text \<open>
  The sample submission with an \<open>expiresAt\<close> of 2000 is stored at time 1000; with a
  confidence of 2 it is refused.
\<close>

theorem ingest_validation_witness:
  "ingest ''i1'' 1000 (sample_input\<lparr>n_expiresAt := Some 2000\<rparr>) []
     = Inr ([new_Insight ''i1'' 1000 (sample_input\<lparr>n_expiresAt := Some 2000\<rparr>)],
            new_Insight ''i1'' 1000 (sample_input\<lparr>n_expiresAt := Some 2000\<rparr>))
   \<and> confidence (new_Insight ''i1'' 1000 (sample_input\<lparr>n_expiresAt := Some 2000\<rparr>)) = 1 / 2
   \<and> priority (new_Insight ''i1'' 1000 (sample_input\<lparr>n_expiresAt := Some 2000\<rparr>)) \<in> set priority_enum
   \<and> expiresAt (new_Insight ''i1'' 1000 (sample_input\<lparr>n_expiresAt := Some 2000\<rparr>)) = Some 2000
   \<and> (\<exists>errs. ingest ''i2'' 1000 (sample_input\<lparr>n_confidence := Some 2\<rparr>) [] = Inl (ValidationError errs))"
proof -
  let ?x = "sample_input\<lparr>n_expiresAt := Some 2000\<rparr>"
  let ?d = "new_Insight ''i1'' 1000 ?x"
  have i: "ingest ''i1'' 1000 ?x [] = Inr ([?d], ?d)" by code_simp
  have c: "confidence ?d = 1 / 2" by code_simp
  have e: "expiresAt ?d = Some 2000" by code_simp
  have bad: "\<not> (\<exists>c. n_confidence (sample_input\<lparr>n_confidence := Some 2\<rparr>) = Some c \<and> 0 \<le> c \<and> c \<le> 1)"
    by simp
  from ingest_validation[of "''i1''" 1000 ?x "[]" None] i
  have "priority ?d \<in> set priority_enum" by blast
  moreover from ingest_validation[of "''i2''" 1000 "sample_input\<lparr>n_confidence := Some 2\<rparr>" "[]" None] bad
  have "\<exists>errs. ingest ''i2'' 1000 (sample_input\<lparr>n_confidence := Some 2\<rparr>) [] = Inl (ValidationError errs)"
    by blast
  ultimately show ?thesis using i c e by simp
qed

text \<open>
  Claim C6 as stated fails in both directions. At time 1000 the sample submission,
  whose \<open>expiresAt\<close> of 5 is in the past, is stored; and a submission with nothing
  wrong by the specification's list, but without a title, is refused.
\<close>

theorem ingest_expiresAt_counterexample:
  "spec_must_reject 1000 sample_input
   \<and> ingest ''i1'' 1000 sample_input []
       = Inr ([new_Insight ''i1'' 1000 sample_input], new_Insight ''i1'' 1000 sample_input)
   \<and> expiresAt (new_Insight ''i1'' 1000 sample_input) = Some 5
   \<and> \<not> spec_must_reject 1000 (sample_input\<lparr>n_expiresAt := Some 2000, n_title := None\<rparr>)
   \<and> ingest ''i1'' 1000 (sample_input\<lparr>n_expiresAt := Some 2000, n_title := None\<rparr>) []
       = Inl (ValidationError [''title''])"
  by code_simp

section \<open>The weekly mood scores\<close>

subsection \<open>The calendar\<close>

text \<open>Later years begin later.\<close>

lemma jan1_mono: "y \<le> y' \<Longrightarrow> jan1 y \<le> jan1 y'"
proof (induction y' rule: int_ge_induct)
  case base
  then show ?case by simp
next
  case (step i)
  with jan1_step[of i] show ?case by simp
qed

text \<open>The two searches end at the year that holds the day.\<close>

lemma year_down_le: "jan1 (year_down y z) \<le> z"
proof (induction y z rule: year_down.induct)
  case (1 y z)
  show ?case
  proof (cases "z < jan1 y")
    case True
    with 1 show ?thesis by (simp del: year_down.simps add: year_down.simps[of y z])
  next
    case False
    then show ?thesis by (simp del: year_down.simps add: year_down.simps[of y z])
  qed
qed

lemma year_up_bounds:
  "jan1 y \<le> z \<Longrightarrow> jan1 (year_up y z) \<le> z \<and> z < jan1 (year_up y z + 1)"
proof (induction y z rule: year_up.induct)
  case (1 y z)
  show ?case
  proof (cases "jan1 (y + 1) \<le> z")
    case True
    with 1 show ?thesis by (simp del: year_up.simps add: year_up.simps[of y z])
  next
    case False
    with 1 show ?thesis by (simp del: year_up.simps add: year_up.simps[of y z])
  qed
qed

lemma civil_year_bounds: "jan1 (civil_year z) \<le> z \<and> z < jan1 (civil_year z + 1)"
  unfolding civil_year_def by (rule year_up_bounds) (rule year_down_le)

text \<open>The year of a day is monotone in the day, and it is the only year that holds the day.\<close>

lemma civil_year_mono:
  assumes "z \<le> z'"
  shows "civil_year z \<le> civil_year z'"
proof (rule ccontr)
  assume "\<not> civil_year z \<le> civil_year z'"
  then have "civil_year z' + 1 \<le> civil_year z" by simp
  then have "jan1 (civil_year z' + 1) \<le> jan1 (civil_year z)" by (rule jan1_mono)
  with civil_year_bounds[of z] civil_year_bounds[of z'] assms show False by linarith
qed

lemma civil_year_unique:
  assumes "jan1 y \<le> z" and "z < jan1 (y + 1)"
  shows "civil_year z = y"
proof (rule ccontr)
  assume n: "civil_year z \<noteq> y"
  show False
  proof (cases "civil_year z < y")
    case True
    then have "jan1 (civil_year z + 1) \<le> jan1 y" by (intro jan1_mono) simp
    with civil_year_bounds[of z] assms show False by linarith
  next
    case False
    with n have "jan1 (y + 1) \<le> jan1 (civil_year z)" by (intro jan1_mono) simp
    with civil_year_bounds[of z] assms show False by linarith
  qed
qed

text \<open>
  Within a year the week number counts the Sundays passed: it is monotone in the day.
\<close>

lemma week_of_day:
  "(z - j + 7 - (z + 4) mod 7) div 7 = (7 * ((z + 4) div 7) + 3 - j) div (7::int)"
proof -
  have "z + 4 = 7 * ((z + 4) div 7) + (z + 4) mod 7" by simp
  then have "z - j + 7 - (z + 4) mod 7 = 7 * ((z + 4) div 7) + 3 - j" by linarith
  then show ?thesis by simp
qed

lemma week_mono_same_year:
  assumes "z \<le> z'"
  shows "(z - j + 7 - (z + 4) mod 7) div 7 \<le> (z' - j + 7 - (z' + 4) mod 7) div (7::int)"
proof -
  from assms have "(z + 4) div 7 \<le> (z' + 4) div 7" by (simp add: zdiv_mono1)
  then have "7 * ((z + 4) div 7) + 3 - j \<le> 7 * ((z' + 4) div 7) + 3 - j" by simp
  then have "(7 * ((z + 4) div 7) + 3 - j) div 7 \<le> (7 * ((z' + 4) div 7) + 3 - j) div 7"
    by (rule zdiv_mono1) simp
  then show ?thesis by (simp only: week_of_day)
qed

text \<open>The pair of year and week is monotone in time, so an earlier pair means an earlier time.\<close>

lemma week_key_mono:
  assumes "t \<le> t'"
  shows "year_op t < year_op t' \<or> (year_op t = year_op t' \<and> week_op t \<le> week_op t')"
proof -
  from assms have d: "epoch_day t \<le> epoch_day t'" by (simp add: epoch_day_def zdiv_mono1)
  from civil_year_mono[OF d] have y: "year_op t \<le> year_op t'" by (simp add: year_op_def)
  show ?thesis
  proof (cases "year_op t = year_op t'")
    case True
    then have e: "civil_year (epoch_day t) = civil_year (epoch_day t')" by (simp add: year_op_def)
    have "week_op t \<le> week_op t'"
      unfolding week_op_def Let_def e by (rule week_mono_same_year[OF d])
    with True show ?thesis by simp
  next
    case False
    with y show ?thesis by simp
  qed
qed

lemma earlier_week_earlier_time:
  assumes "year_op t < year_op t' \<or> (year_op t = year_op t' \<and> week_op t < week_op t')"
  shows "t < t'"
proof (rule ccontr)
  assume "\<not> t < t'"
  then have "t' \<le> t" by simp
  from week_key_mono[OF this] assms show False by linarith
qed

subsection \<open>The sorted groups\<close>

text \<open>Sorting keeps the documents.\<close>

lemma set_insert_sorted: "set (insert_sorted prec x xs) = insert x (set xs)"
  by (induction xs) auto

lemma set_sort_docs: "set (sort_docs prec xs) = set xs"
  by (induction xs) (simp_all add: sort_docs_def set_insert_sorted)

text \<open>The order of the weekly scores is a strict linear order of the keys.\<close>

lemma week_before_trans: "week_before a b \<Longrightarrow> week_before b c \<Longrightarrow> week_before a c"
  by (auto simp: week_before_def)

lemma week_before_total: "\<not> week_before b a \<Longrightarrow> wkey a \<noteq> wkey b \<Longrightarrow> week_before a b"
  by (auto simp: week_before_def wkey_def)

text \<open>Insertion keeps a list of weeks with distinct keys strictly ascending.\<close>

lemma sorted_insert_week:
  assumes "sorted_wrt week_before xs" and "wkey x \<notin> wkey ` set xs"
  shows "sorted_wrt week_before (insert_sorted week_before x xs)"
  using assms
proof (induction xs)
  case Nil
  then show ?case by simp
next
  case (Cons y ys)
  show ?case
  proof (cases "week_before y x")
    case True
    with Cons show ?thesis by (auto simp: set_insert_sorted)
  next
    case False
    with Cons.prems have xy: "week_before x y" by (auto intro: week_before_total)
    then have "week_before x z" if "z \<in> set ys" for z
      using Cons.prems(1) that by (auto intro: week_before_trans)
    with False xy Cons.prems(1) show ?thesis by auto
  qed
qed

lemma sorted_sort_week:
  "distinct (map wkey xs) \<Longrightarrow> sorted_wrt week_before (sort_docs week_before xs)"
proof (induction xs)
  case Nil
  then show ?case by (simp add: sort_docs_def)
next
  case (Cons x xs)
  then have s: "sorted_wrt week_before (sort_docs week_before xs)" by simp
  from Cons.prems have "wkey x \<notin> wkey ` set (sort_docs week_before xs)"
    by (simp add: set_sort_docs)
  from sorted_insert_week[OF s this] show ?case by (simp add: sort_docs_def)
qed

lemma wkey_week_group: "wkey (week_group ds k) = k"
  by (simp add: wkey_def week_group_def Let_def)

text \<open>
  Claim C9, as the code has it. The weekly scores group the user's mood logs of the
  window by the pair of \<^verbatim>\<open>$year\<close> and \<^verbatim>\<open>$week\<close> of their creation time (the UTC
  calendar year and the week of the year whose weeks begin on Sunday): there is one
  entry for every pair that occurs, its count is the number of the window's logs with
  that pair, and the entries come in strictly ascending order of year and week. That
  order is the order of time: whenever one entry comes before another, every mood
  log of the earlier entry's week was created before every mood log of the later
  entry's week.
\<close>

theorem weeklyScores_groups:
  "sorted_wrt week_before (weeklyScores now uid days store)
   \<and> set (map (\<lambda>w. (w_year w, w_week w)) (weeklyScores now uid days store))
       = set (map week_key (filter (in_window now uid days) store))
   \<and> list_all (\<lambda>w. w_count w = length (filter (\<lambda>d. week_key d = (w_year w, w_week w))
                                           (filter (in_window now uid days) store))
                    \<and> 0 < w_count w)
       (weeklyScores now uid days store)
   \<and> sorted_wrt (\<lambda>a b. \<forall>d1 d2. week_key d1 = (w_year a, w_week a) \<and> week_key d2 = (w_year b, w_week b)
                            \<longrightarrow> m_createdAt d1 < m_createdAt d2)
       (weeklyScores now uid days store)"
proof -
  define matched where "matched = filter (in_window now uid days) store"
  define keys where "keys = remdups (map week_key matched)"
  have w: "weeklyScores now uid days store = sort_docs week_before (map (week_group matched) keys)"
    by (simp add: weeklyScores_def matched_def keys_def Let_def)
  have k: "map wkey (map (week_group matched) keys) = keys"
    by (simp add: wkey_week_group comp_def)
  have d: "distinct keys" by (simp add: keys_def)
  have a: "sorted_wrt week_before (weeklyScores now uid days store)"
    unfolding w by (rule sorted_sort_week) (simp only: k d)
  have "set (map wkey (weeklyScores now uid days store)) = set (map wkey (map (week_group matched) keys))"
    unfolding w by (simp only: set_map set_sort_docs)
  then have b: "set (map (\<lambda>w. (w_year w, w_week w)) (weeklyScores now uid days store)) = set (map week_key matched)"
    unfolding k by (simp add: keys_def wkey_def[abs_def])
  have c: "w_count x = length (filter (\<lambda>d. week_key d = (w_year x, w_week x)) matched) \<and> 0 < w_count x"
    if "x \<in> set (weeklyScores now uid days store)" for x
  proof -
    from that obtain k where kk: "k \<in> set keys" and x: "x = week_group matched k"
      unfolding w by (auto simp: set_sort_docs)
    from kk obtain e where "e \<in> set matched" "week_key e = k" by (auto simp: keys_def)
    then have "filter (\<lambda>d. week_key d = k) matched \<noteq> []" by (auto simp: filter_empty_conv)
    then show ?thesis by (simp add: x week_group_def Let_def)
  qed
  have c': "list_all (\<lambda>w. w_count w = length (filter (\<lambda>d. week_key d = (w_year w, w_week w)) matched)
                        \<and> 0 < w_count w)
       (weeklyScores now uid days store)"
    unfolding list_all_iff using c by blast
  have t: "m_createdAt d1 < m_createdAt d2"
    if "week_before x y" and "week_key d1 = (w_year x, w_week x)" and "week_key d2 = (w_year y, w_week y)"
    for x y d1 d2
    by (rule earlier_week_earlier_time) (use that in \<open>auto simp: week_before_def week_key_def\<close>)
  have e: "sorted_wrt (\<lambda>a b. \<forall>d1 d2. week_key d1 = (w_year a, w_week a) \<and> week_key d2 = (w_year b, w_week b)
                            \<longrightarrow> m_createdAt d1 < m_createdAt d2)
       (weeklyScores now uid days store)"
    by (rule sorted_wrt_mono_rel[OF _ a]) (use t in blast)
  from a b c' e show ?thesis unfolding matched_def by blast
qed

text \<open>
  Claim C9 as stated fails. Two logs of mood happy and intensity 10, one of Sunday
  2024-01-07 and one of Monday 2024-01-08, lie in the ISO weeks 1 and 2 of 2024; the
  route reports them as one week of two logs. The derived score of each log is 9;
  the route reports no average (\<open>null\<close>), since the pipeline reads a stored field
  \<open>moodScore\<close> that no document has.
\<close>

theorem weeklyScores_iso_counterexample:
  "weeklyScores (monday + 1) ''u1'' 30
     [sample_mood ''e1'' ''happy'' 10 sunday, sample_mood ''e2'' ''happy'' 10 monday]
     = [\<lparr>w_year = 2024, w_week = 1, w_avgMoodScore = None, w_count = 2\<rparr>]
   \<and> (isoWeekYear sunday, isoWeek sunday) = (2024, 1)
   \<and> (isoWeekYear monday, isoWeek monday) = (2024, 2)
   \<and> moodScore (sample_mood ''e1'' ''happy'' 10 sunday) = JNum 9
   \<and> moodScore (sample_mood ''e2'' ''happy'' 10 monday) = JNum 9"
  by code_simp

text \<open>
  Three logs, of Sunday, Saturday and Monday: the Saturday is in week 0 of 2024, the
  other two are in week 1; the weeks come in that order, and the log of the Saturday
  was created before the other two.
\<close>

theorem weeklyScores_groups_witness:
  "weeklyScores (monday + 1) ''u1'' 30
     [sample_mood ''e2'' ''happy'' 10 sunday, sample_mood ''e1'' ''sad'' 3 saturday,
      sample_mood ''e3'' ''calm'' 5 monday]
     = [\<lparr>w_year = 2024, w_week = 0, w_avgMoodScore = None, w_count = 1\<rparr>,
        \<lparr>w_year = 2024, w_week = 1, w_avgMoodScore = None, w_count = 2\<rparr>]
   \<and> week_before \<lparr>w_year = 2024, w_week = 0, w_avgMoodScore = None, w_count = 1\<rparr>
                   \<lparr>w_year = 2024, w_week = 1, w_avgMoodScore = None, w_count = 2\<rparr>
   \<and> m_createdAt (sample_mood ''e1'' ''sad'' 3 saturday) < m_createdAt (sample_mood ''e2'' ''happy'' 10 sunday)
   \<and> m_createdAt (sample_mood ''e1'' ''sad'' 3 saturday) < m_createdAt (sample_mood ''e3'' ''calm'' 5 monday)"
proof -
  let ?s = "[sample_mood ''e2'' ''happy'' 10 sunday, sample_mood ''e1'' ''sad'' 3 saturday,
      sample_mood ''e3'' ''calm'' 5 monday]"
  let ?w0 = "\<lparr>w_year = 2024, w_week = 0, w_avgMoodScore = None, w_count = 1\<rparr>"
  let ?w1 = "\<lparr>w_year = 2024, w_week = 1, w_avgMoodScore = None, w_count = 2\<rparr>"
  have r: "weeklyScores (monday + 1) ''u1'' 30 ?s = [?w0, ?w1]" by code_simp
  have k1: "week_key (sample_mood ''e1'' ''sad'' 3 saturday) = (w_year ?w0, w_week ?w0)" by code_simp
  have k2: "week_key (sample_mood ''e2'' ''happy'' 10 sunday) = (w_year ?w1, w_week ?w1)" by code_simp
  have k3: "week_key (sample_mood ''e3'' ''calm'' 5 monday) = (w_year ?w1, w_week ?w1)" by code_simp
  note T = weeklyScores_groups[of "monday + 1" "''u1''" 30 ?s, unfolded r]
  have a: "week_before ?w0 ?w1"
    using T[THEN conjunct1] by (simp only: sorted_wrt.simps list.set ball_simps insert_iff empty_iff simp_thms)
  have c: "\<forall>d1 d2. week_key d1 = (w_year ?w0, w_week ?w0) \<and> week_key d2 = (w_year ?w1, w_week ?w1)
          \<longrightarrow> m_createdAt d1 < m_createdAt d2"
    using T[THEN conjunct2, THEN conjunct2, THEN conjunct2]
    by (simp only: sorted_wrt.simps list.set ball_simps insert_iff empty_iff simp_thms)
  have t1: "m_createdAt (sample_mood ''e1'' ''sad'' 3 saturday) < m_createdAt (sample_mood ''e2'' ''happy'' 10 sunday)"
    by (rule c[THEN spec, THEN spec, THEN mp, OF conjI[OF k1 k2]])
  have t2: "m_createdAt (sample_mood ''e1'' ''sad'' 3 saturday) < m_createdAt (sample_mood ''e3'' ''calm'' 5 monday)"
    by (rule c[THEN spec, THEN spec, THEN mp, OF conjI[OF k1 k3]])
  show ?thesis by (rule conjI[OF r conjI[OF a conjI[OF t1 t2]]])
qed

section \<open>Where the code departs from the specification\<close>

subsection \<open>Expired insights in the list\<close>

text \<open>What the three read paths of an insight return lies in the collection.\<close>

lemma set_limit_docs: "set (limit_docs n ds) \<subseteq> set ds"
  by (auto simp: limit_docs_def dest: in_set_takeD)

lemma get_actionable_only:
  assumes "d \<in> set (get_actionable now uid n store)"
  shows "d \<in> set store \<and> i_userId d = uid \<and> isActionable d \<and> \<not> actionTaken d \<and> expiresAt_gt now d"
proof -
  have "set (get_actionable now uid n store)
      \<subseteq> set (filter (\<lambda>d. i_userId d = uid \<and> isActionable d \<and> \<not> actionTaken d \<and> expiresAt_gt now d) store)"
    unfolding get_actionable_def getActionableInsights_def
    by (rule subset_trans[OF set_limit_docs]) (simp only: set_sort_docs subset_refl)
  from subsetD[OF this assms] show ?thesis by simp
qed

text \<open>
  Claim C1 at a concrete input. The collection holds one insight of user \<open>u1\<close> that
  expired at time 1000 and has not been purged. At time 2000 the list route returns
  it (its filter has no condition on \<open>expiresAt\<close>), the actionable route does not,
  and the lookup by id does. Only after the purge is the list empty.
\<close>

theorem list_returns_expired:
  "expired 2000 (sample_insight ''a'' ''low'' (9 / 10) 1)
   \<and> get_insights ''u1'' default_query [sample_insight ''a'' ''low'' (9 / 10) 1]
       = Inr ([sample_insight ''a'' ''low'' (9 / 10) 1], 1)
   \<and> get_actionable 2000 ''u1'' 5 [sample_insight ''a'' ''low'' (9 / 10) 1] = []
   \<and> get_insight ''u1'' ''a'' [sample_insight ''a'' ''low'' (9 / 10) 1]
       = Inr (sample_insight ''a'' ''low'' (9 / 10) 1)
   \<and> get_insights ''u1'' default_query (ttl_purge 2000 [sample_insight ''a'' ''low'' (9 / 10) 1])
       = Inr ([], 0)"
  by code_simp

subsection \<open>The order of the actionable insights\<close>

text \<open>
  Claim C2 at the specification's own example. \<open>priority\<close> is a string and the
  database sorts it as one: descending, the order is urgent, medium, low, high. The
  two urgent insights come first, the one with confidence 0.9 before the one with
  0.5; then the low one comes before the high one.
\<close>

theorem actionable_order_example:
  "map (\<lambda>d. (i_id d, priority d, confidence d)) (get_actionable 10 ''u1'' 5 four_insights)
     = [(''d'', ''urgent'', 9 / 10), (''b'', ''urgent'', 1 / 2),
        (''a'', ''low'', 9 / 10), (''c'', ''high'', 9 / 10)]"
  by code_simp

subsection \<open>What an update of a mood log may change\<close>

text \<open>
  Claim C5 at a concrete input. The route hands the whole request body to
  \<^verbatim>\<open>$set\<close>. A body with the one key \<open>userId\<close> passes the request validators, which
  look at five other keys, and the mood log \<open>e1\<close> of user \<open>u1\<close> is given to user
  \<open>mallory\<close>.
\<close>

theorem update_sets_userId:
  "put_mood 50 ''u1'' ''e1'' (empty_body\<lparr>b_userId := Some ''mallory''\<rparr>)
      [sample_mood ''e1'' ''happy'' 10 7]
     = Inr ([(sample_mood ''e1'' ''happy'' 10 7)\<lparr>m_userId := ''mallory'', m_updatedAt := 50\<rparr>],
            response_of ((sample_mood ''e1'' ''happy'' 10 7)\<lparr>m_userId := ''mallory'', m_updatedAt := 50\<rparr>))
   \<and> m_userId (sample_mood ''e1'' ''happy'' 10 7) = ''u1''"
  by code_simp

subsection \<open>The average confidence of the summary\<close>

text \<open>
  Claim C7 at a concrete input: three insights of one type with confidence 1 and one
  insight of another type with confidence 0, all created within the window. The
  route averages the averages of the two groups and answers 0.5; the mean over the
  four insights is 0.75. At time 2000 all four have expired: the route still answers
  0.5, where the specification asks for 0.
\<close>

theorem avgConfidence_example:
  "s_avgConfidence (get_summary 10 ''u1'' 30 two_groups) = 1 / 2
   \<and> spec_avgConfidence 10 ''u1'' 30 two_groups = 3 / 4
   \<and> s_totalInsights (get_summary 10 ''u1'' 30 two_groups) = 4
   \<and> s_avgConfidence (get_summary 2000 ''u1'' 30 two_groups) = 1 / 2
   \<and> spec_avgConfidence 2000 ''u1'' 30 two_groups = 0
   \<and> s_recentInsights (get_summary 2000 ''u1'' 30 two_groups) = []"
  by code_simp

subsection \<open>The dominant mood of the summary\<close>

text \<open>With no mood log in the window the route answers with its default.\<close>

lemma mood_summary_empty:
  assumes "filter (in_window now uid days) store = []"
  shows "get_mood_summary wrap now uid days store
     = Inr \<lparr>totalLogs = 0, avgMoodScore = Some 0, dominantMood = BStr ''neutral''\<rparr>"
  using assms by (simp add: get_mood_summary_def summary_aggregate_def bind_def)

text \<open>
  On any document the expression of \<open>dominantMood\<close> hands a string to \<^verbatim>\<open>$reduce\<close>,
  and the database raises an error; read as a one-element array, the string comes
  back as it went in.
\<close>

lemma dominantMood_expr_value:
  "dominantMood_expr wrap d = (if wrap then Inr (BStr (mood d)) else Inl Server_Error)"
  by (simp add: dominantMood_expr_def bind_def)

text \<open>With a mood log in the window the pipeline fails, and the route answers 500.\<close>

lemma mood_summary_nonempty:
  assumes "filter (in_window now uid days) store \<noteq> []"
  shows "get_mood_summary False now uid days store = Inl Server_Error"
proof -
  from assms obtain d ds where "filter (in_window now uid days) store = d # ds"
    by (cases "filter (in_window now uid days) store") auto
  then show ?thesis
    by (simp add: get_mood_summary_def summary_aggregate_def bind_def dominantMood_expr_value)
qed

text \<open>
  Claim C8 at a concrete input: a window with one sad log followed by two happy
  ones. The mood with the highest count is happy. The route answers 500; and under
  the reading that lets the expression compute (\<open>wrap\<close>), the dominant mood is that
  of the first document, sad, and the average score is \<open>null\<close>. For an empty window
  the route gives 0 logs, an average of 0 and the mood neutral.
\<close>

theorem dominantMood_example:
  "mood_count ''happy'' three_moods = 2 \<and> mood_count ''sad'' three_moods = 1
   \<and> get_mood_summary False 100 ''u1'' 7 three_moods = Inl Server_Error
   \<and> get_mood_summary True 100 ''u1'' 7 three_moods
       = Inr \<lparr>totalLogs = 3, avgMoodScore = None, dominantMood = BStr ''sad''\<rparr>
   \<and> get_mood_summary False 100 ''u1'' 7 []
       = Inr \<lparr>totalLogs = 0, avgMoodScore = Some 0, dominantMood = BStr ''neutral''\<rparr>"
  by code_simp

end
